theory Spec2Isabelle
  imports Main "HOL-Library.Word" "HOL-Library.Mapping"
begin

unbundle bit_operations_syntax

section \<open>Two-Flags pawn chess: position model (twoflags/game.py)\<close>

text \<open>
  Squares are Python integers, \<open>0..63\<close> rank-major on a well-formed board; the
  occupancy sets are Python sets of integers. Nothing in the class restricts the
  integers, so the model keeps them as \<^typ>\<open>int\<close> and states range conditions
  where a property needs them.
\<close>

datatype color = W | B

datatype error = ValueError | KeyError | IndexError | NoLegalMoves

definition file_of :: "int \<Rightarrow> int" where
  "file_of sq = sq AND 7"

definition rank_of :: "int \<Rightarrow> int" where
  "rank_of sq = drop_bit 3 sq + 1"

definition sq_index :: "int \<Rightarrow> int \<Rightarrow> int" where
  "sq_index file_idx rank = (rank - 1) * 8 + file_idx"

record move =
  src :: int
  dst :: int
  is_ep :: bool
  is_double :: bool

text \<open>
  \<open>Move(src, dst, is_ep=False, is_double=False)\<close>: the constructor with its
  default arguments.
\<close>

definition Move :: "int \<Rightarrow> int \<Rightarrow> bool \<Rightarrow> bool \<Rightarrow> move" where
  "Move s d e dbl = \<lparr>src = s, dst = d, is_ep = e, is_double = dbl\<rparr>"

text \<open>
  The dataclass \<open>Position\<close> has the four fields \<open>white\<close>, \<open>black\<close>, \<open>turn\<close> and
  \<open>ep_target\<close>. The search attaches a further attribute \<open>last_move\<close> to the
  positions it creates (\<open>setattr\<close> in \<open>apply_move_fixed\<close>); it is the field
  \<open>last_move\<close> here, \<open>None\<close> when the attribute is absent.
\<close>

record position =
  white :: "int set"
  black :: "int set"
  turn :: color
  ep_target :: "int option"
  last_move :: "move option"

definition Position :: "int set \<Rightarrow> int set \<Rightarrow> color \<Rightarrow> int option \<Rightarrow> position" where
  "Position w b t ep = \<lparr>white = w, black = b, turn = t, ep_target = ep, last_move = None\<rparr>"

definition initial :: position where
  "initial = Position ((\<lambda>f. sq_index f 2) ` {0..<8}) ((\<lambda>f. sq_index f 7) ` {0..<8}) W None"

definition occupied :: "position \<Rightarrow> int set" where
  "occupied pos = white pos \<union> black pos"

definition other :: "color \<Rightarrow> color" where
  "other c = (if c = W then B else W)"

definition pawns_of :: "position \<Rightarrow> int set" where
  "pawns_of pos = (if turn pos = W then white pos else black pos)"

definition opp_of :: "position \<Rightarrow> int set" where
  "opp_of pos = (if turn pos = W then black pos else white pos)"

definition fwd_of :: "position \<Rightarrow> int" where
  "fwd_of pos = (if turn pos = W then 8 else - 8)"

definition start_rank_of :: "position \<Rightarrow> int" where
  "start_rank_of pos = (if turn pos = W then 2 else 7)"

definition cap_deltas_of :: "position \<Rightarrow> int list" where
  "cap_deltas_of pos = (if turn pos = W then [7, 9] else [- 9, - 7])"

definition ep_deltas_of :: "position \<Rightarrow> int list" where
  "ep_deltas_of pos = (if turn pos = W then [7, 9] else [- 9, - 7])"

subsection \<open>Move generation\<close>

text \<open>The moves the body of the \<open>for src in sorted(pawns)\<close> loop yields for one pawn.\<close>

definition forward_moves :: "position \<Rightarrow> int \<Rightarrow> move list" where
  "forward_moves pos s =
     (let occ = occupied pos; fwd = fwd_of pos; r = rank_of s; dst1 = s + fwd in
      if 0 \<le> dst1 \<and> dst1 < 64 \<and> dst1 \<notin> occ then
        Move s dst1 False False #
        (if r = start_rank_of pos then
           (let dst2 = s + 2 * fwd; mid = s + fwd in
            if 0 \<le> dst2 \<and> dst2 < 64 \<and> mid \<notin> occ \<and> dst2 \<notin> occ
            then [Move s dst2 False True] else [])
         else [])
      else [])"

definition capture_moves :: "position \<Rightarrow> int \<Rightarrow> move list" where
  "capture_moves pos s =
     concat (map (\<lambda>d. let dst = s + d in
                       if 0 \<le> dst \<and> dst < 64 \<and> \<bar>file_of dst - file_of s\<bar> = 1 \<and> dst \<in> opp_of pos
                       then [Move s dst False False] else [])
                 (cap_deltas_of pos))"

definition ep_moves :: "position \<Rightarrow> int \<Rightarrow> move list" where
  "ep_moves pos s =
     (case ep_target pos of
        None \<Rightarrow> []
      | Some ep \<Rightarrow>
          concat (map (\<lambda>d. let dst = s + d in
                            if dst = ep \<and> 0 \<le> dst \<and> dst < 64 \<and> \<bar>file_of dst - file_of s\<bar> = 1 then
                              (let cap_sq = dst - fwd_of pos in
                               if cap_sq \<in> opp_of pos \<and> dst \<notin> occupied pos
                               then [Move s dst True False] else [])
                            else [])
                      (ep_deltas_of pos)))"

definition pawn_moves :: "position \<Rightarrow> int \<Rightarrow> move list" where
  "pawn_moves pos s = forward_moves pos s @ capture_moves pos s @ ep_moves pos s"

definition generate_moves :: "position \<Rightarrow> move list" where
  "generate_moves pos = concat (map (pawn_moves pos) (sorted_list_of_set (pawns_of pos)))"

subsection \<open>Terminal detection\<close>

definition winner :: "position \<Rightarrow> color option" where
  "winner pos =
     (if \<exists>sq \<in> white pos. drop_bit 3 sq = 7 then Some W
      else if \<exists>sq \<in> black pos. drop_bit 3 sq = 0 then Some B
      else if black pos = {} then Some W
      else if white pos = {} then Some B
      else if generate_moves pos = [] then Some (if turn pos = W then B else W)
      else None)"

subsection \<open>Move application\<close>

text \<open>
  \<open>mover.remove(mv.src)\<close> raises \<open>KeyError\<close> when the source square holds no pawn
  of the side to move. The passed-over pawn of an en-passant move is left on the
  board (the compatibility mode of the source).
\<close>

definition apply_move :: "position \<Rightarrow> move \<Rightarrow> error + position" where
  "apply_move pos mv =
     (let mover = pawns_of pos; opp = opp_of pos; fwd = fwd_of pos in
      if src mv \<notin> mover then Inl KeyError
      else
        (let mover1 = mover - {src mv};
             opp1 = (if dst mv \<in> opp then opp - {dst mv} else opp);
             mover2 = insert (dst mv) mover1;
             ep = (if is_double mv then Some (src mv + fwd) else None)
         in Inr \<lparr>white = (if turn pos = W then mover2 else opp1),
                 black = (if turn pos = W then opp1 else mover2),
                 turn = (if turn pos = W then B else W),
                 ep_target = ep,
                 last_move = None\<rparr>))"

subsection \<open>Board invariant and reachable positions\<close>

definition board_ok :: "position \<Rightarrow> bool" where
  "board_ok pos = (white pos \<inter> black pos = {} \<and> white pos \<subseteq> {0..<64} \<and> black pos \<subseteq> {0..<64})"

text \<open>The range half of the invariant: every square lies in \<open>[0, 64)\<close>.\<close>

definition squares_ok :: "position \<Rightarrow> bool" where
  "squares_ok pos = (white pos \<subseteq> {0..<64} \<and> black pos \<subseteq> {0..<64})"

inductive reachable :: "position \<Rightarrow> bool" where
  reachable_initial: "reachable initial"
| reachable_step: "reachable pos \<Longrightarrow> mv \<in> set (generate_moves pos) \<Longrightarrow> apply_move pos mv = Inr pos' \<Longrightarrow> reachable pos'"

section \<open>Search agent (twoflags/agents/ab_agent.py)\<close>

subsection \<open>Static evaluation\<close>

definition evaluate :: "position \<Rightarrow> int" where
  "evaluate pos =
     (let w = int (card (white pos));
          b = int (card (black pos));
          w_prog = (\<Sum>sq \<in> white pos. drop_bit 3 sq + 1);
          b_prog = (\<Sum>sq \<in> black pos. 9 - (drop_bit 3 sq + 1))
      in 100 * (w - b) + 3 * (w_prog - b_prog))"

text \<open>
  The evaluation in the words of the specification, where the progress of a pawn is
  the rank distance it has advanced toward its promotion rank. \<open>base\<close> is the rank the
  distance is counted from for white (2, the starting rank, or 1, the own back rank);
  for black it is counted from the mirrored rank \<open>9 - base\<close>.
\<close>

definition spec_progress :: "int \<Rightarrow> color \<Rightarrow> int \<Rightarrow> int" where
  "spec_progress base c sq = (if c = W then rank_of sq - base else (9 - base) - rank_of sq)"

definition spec_evaluate :: "int \<Rightarrow> position \<Rightarrow> int" where
  "spec_evaluate base pos =
     100 * (int (card (white pos)) - int (card (black pos)))
     + 3 * ((\<Sum>sq \<in> white pos. spec_progress base W sq) - (\<Sum>sq \<in> black pos. spec_progress base B sq))"

subsection \<open>Transposition table\<close>

definition EXACT :: int where "EXACT = 0"
definition LOWER :: int where "LOWER = 1"
definition UPPER :: int where "UPPER = 2"

text \<open>\<open>TTEntry\<close>; the fields carry the prefix \<open>entry_\<close>.\<close>

record tt_entry =
  entry_depth :: int
  entry_value :: int
  entry_flag :: int
  entry_best_move :: "move option"

definition TT_MAX_SIZE :: nat where "TT_MAX_SIZE = 200000"

text \<open>
  The module's globals \<open>TT\<close>, \<open>NODES\<close>, \<open>TT_HITS\<close>, \<open>TT_STORES\<close>, passed explicitly.
  \<open>clock_reads\<close> counts the deadline checks made so far (see \<open>time_up\<close> below).
\<close>

record search_state =
  TT :: "(64 word, tt_entry) mapping"
  NODES :: int
  TT_HITS :: int
  TT_STORES :: int
  clock_reads :: nat

text \<open>The state after \<open>reset_tt()\<close> at the start of a process.\<close>

definition fresh_state :: search_state where
  "fresh_state = \<lparr>TT = Mapping.empty, NODES = 0, TT_HITS = 0, TT_STORES = 0, clock_reads = 0\<rparr>"

text \<open>A table holding one exact entry of depth 3 under the key 0.\<close>

definition held_entry :: tt_entry where
  "held_entry = \<lparr>entry_depth = 3, entry_value = 7, entry_flag = EXACT, entry_best_move = None\<rparr>"

definition held_state :: search_state where
  "held_state = fresh_state\<lparr>TT := Mapping.update 0 held_entry Mapping.empty\<rparr>"

definition tt_maybe_evict :: "search_state \<Rightarrow> search_state" where
  "tt_maybe_evict st = (if Mapping.size (TT st) > TT_MAX_SIZE then st\<lparr>TT := Mapping.empty\<rparr> else st)"

definition store_flag :: "int \<Rightarrow> int \<Rightarrow> int \<Rightarrow> int" where
  "store_flag v alpha0 beta0 = (if v \<le> alpha0 then UPPER else if v \<ge> beta0 then LOWER else EXACT)"

definition tt_store :: "64 word \<Rightarrow> int \<Rightarrow> int \<Rightarrow> int \<Rightarrow> int \<Rightarrow> move option \<Rightarrow> search_state \<Rightarrow> search_state" where
  "tt_store key d v alpha0 beta0 bm st =
     (let flag = store_flag v alpha0 beta0;
          old = Mapping.lookup (TT st) key
      in if (case old of None \<Rightarrow> True | Some e \<Rightarrow> d \<ge> entry_depth e)
         then tt_maybe_evict
                (st\<lparr>TT := Mapping.update key
                              \<lparr>entry_depth = d, entry_value = v, entry_flag = flag, entry_best_move = bm\<rparr> (TT st),
                    TT_STORES := TT_STORES st + 1\<rparr>)
         else st)"

text \<open>
  \<open>_tt_probe\<close> returns the tuple \<open>(found, alpha, beta, value-or-None)\<close>; here together
  with the state, whose hit counter it increments.
\<close>

definition tt_probe :: "64 word \<Rightarrow> int \<Rightarrow> int \<Rightarrow> int \<Rightarrow> search_state \<Rightarrow> (bool \<times> int \<times> int \<times> int option) \<times> search_state" where
  "tt_probe key d alpha beta st =
     (case Mapping.lookup (TT st) key of
        None \<Rightarrow> ((False, alpha, beta, None), st)
      | Some e \<Rightarrow>
          if entry_depth e < d then ((False, alpha, beta, None), st)
          else
            (let st1 = st\<lparr>TT_HITS := TT_HITS st + 1\<rparr> in
             if entry_flag e = EXACT then ((True, alpha, beta, Some (entry_value e)), st1)
             else
               (let alpha1 = (if entry_flag e = LOWER then max alpha (entry_value e) else alpha);
                    beta1 = (if entry_flag e = LOWER then beta
                             else if entry_flag e = UPPER then min beta (entry_value e) else beta)
                in if alpha1 \<ge> beta1 then ((True, alpha1, beta1, Some (entry_value e)), st1)
                   else ((True, alpha1, beta1, None), st1))))"

text \<open>
  The classification in the words of the specification, for comparison with
  \<open>store_flag\<close>: below the original alpha is an upper bound.
\<close>

definition spec_store_flag :: "int \<Rightarrow> int \<Rightarrow> int \<Rightarrow> int" where
  "spec_store_flag v alpha0 beta0 = (if v < alpha0 then UPPER else if v \<ge> beta0 then LOWER else EXACT)"

subsection \<open>The digest behind \<open>_stable_u64_from_obj\<close>\<close>

text \<open>
  \<open>hashlib.blake2b(b, digest_size=8)\<close>, unkeyed, read as a little-endian integer: the
  first state word after the last compression (RFC 7693).
\<close>

definition blake2b_iv :: "64 word list" where
  "blake2b_iv = [0x6a09e667f3bcc908, 0xbb67ae8584caa73b, 0x3c6ef372fe94f82b, 0xa54ff53a5f1d36f1,
                 0x510e527fade682d1, 0x9b05688c2b3e6c1f, 0x1f83d9abfb41bd6b, 0x5be0cd19137e2179]"

definition blake2b_sigma :: "nat list list" where
  "blake2b_sigma =
    [[0, 1, 2, 3, 4, 5, 6, 7, 8, 9, 10, 11, 12, 13, 14, 15],
     [14, 10, 4, 8, 9, 15, 13, 6, 1, 12, 0, 2, 11, 7, 5, 3],
     [11, 8, 12, 0, 5, 2, 15, 13, 10, 14, 3, 6, 7, 1, 9, 4],
     [7, 9, 3, 1, 13, 12, 11, 14, 2, 6, 5, 10, 4, 0, 15, 8],
     [9, 0, 5, 7, 2, 4, 10, 15, 14, 1, 11, 12, 6, 8, 3, 13],
     [2, 12, 6, 10, 0, 11, 8, 3, 4, 13, 7, 5, 15, 14, 1, 9],
     [12, 5, 1, 15, 14, 13, 4, 10, 0, 7, 6, 3, 9, 2, 8, 11],
     [13, 11, 7, 14, 12, 1, 3, 9, 5, 0, 15, 4, 8, 6, 2, 10],
     [6, 15, 14, 9, 11, 3, 0, 8, 12, 2, 13, 7, 1, 4, 10, 5],
     [10, 2, 8, 4, 7, 6, 1, 5, 15, 11, 9, 14, 3, 12, 13, 0]]"

definition rotr64 :: "nat \<Rightarrow> 64 word \<Rightarrow> 64 word" where
  "rotr64 n w = (drop_bit n w) OR (push_bit (64 - n) w)"

text \<open>
  The mixing function \<open>G\<close> of RFC 7693 works on four words of the vector; its eight
  assignments are the steps \<open>mix_a\<close>, \<open>mix_d\<close>, \<open>mix_c\<close>, \<open>mix_b\<close>, taken twice.
\<close>

type_synonym quad = "64 word \<times> 64 word \<times> 64 word \<times> 64 word"

fun mix_a :: "64 word \<Rightarrow> quad \<Rightarrow> quad" where
  "mix_a x (a, b, c, d) = (a + b + x, b, c, d)"

fun mix_d :: "nat \<Rightarrow> quad \<Rightarrow> quad" where
  "mix_d r (a, b, c, d) = (a, b, c, rotr64 r (d XOR a))"

fun mix_c :: "quad \<Rightarrow> quad" where
  "mix_c (a, b, c, d) = (a, b, c + d, d)"

fun mix_b :: "nat \<Rightarrow> quad \<Rightarrow> quad" where
  "mix_b r (a, b, c, d) = (a, rotr64 r (b XOR c), c, d)"

definition mix :: "64 word \<Rightarrow> 64 word \<Rightarrow> quad \<Rightarrow> quad" where
  "mix x y q = mix_b 63 (mix_c (mix_d 16 (mix_a y (mix_b 24 (mix_c (mix_d 32 (mix_a x q)))))))"

fun put_quad :: "nat \<Rightarrow> nat \<Rightarrow> nat \<Rightarrow> nat \<Rightarrow> quad \<Rightarrow> 64 word list \<Rightarrow> 64 word list" where
  "put_quad a b c d (va, vb, vc, vd) v = v[a := va, b := vb, c := vc, d := vd]"

definition blake2b_G :: "nat \<Rightarrow> nat \<Rightarrow> nat \<Rightarrow> nat \<Rightarrow> 64 word \<Rightarrow> 64 word \<Rightarrow> 64 word list \<Rightarrow> 64 word list" where
  "blake2b_G a b c d x y v = put_quad a b c d (mix x y (v ! a, v ! b, v ! c, v ! d)) v"

definition msg_word :: "64 word list \<Rightarrow> nat \<Rightarrow> nat \<Rightarrow> 64 word" where
  "msg_word m r i = m ! (blake2b_sigma ! (r mod 10) ! i)"

definition blake2b_round :: "64 word list \<Rightarrow> nat \<Rightarrow> 64 word list \<Rightarrow> 64 word list" where
  "blake2b_round m r v =
     blake2b_G 3 4 9 14 (msg_word m r 14) (msg_word m r 15)
    (blake2b_G 2 7 8 13 (msg_word m r 12) (msg_word m r 13)
    (blake2b_G 1 6 11 12 (msg_word m r 10) (msg_word m r 11)
    (blake2b_G 0 5 10 15 (msg_word m r 8) (msg_word m r 9)
    (blake2b_G 3 7 11 15 (msg_word m r 6) (msg_word m r 7)
    (blake2b_G 2 6 10 14 (msg_word m r 4) (msg_word m r 5)
    (blake2b_G 1 5 9 13 (msg_word m r 2) (msg_word m r 3)
    (blake2b_G 0 4 8 12 (msg_word m r 0) (msg_word m r 1) v)))))))"




definition blake2b_init_v :: "64 word list \<Rightarrow> int \<Rightarrow> bool \<Rightarrow> 64 word list" where
  "blake2b_init_v h t final =
     h @ [blake2b_iv ! 0, blake2b_iv ! 1, blake2b_iv ! 2, blake2b_iv ! 3,
          blake2b_iv ! 4 XOR word_of_int t,
          blake2b_iv ! 5 XOR word_of_int (drop_bit 64 t),
          (if final then blake2b_iv ! 6 XOR 0xFFFFFFFFFFFFFFFF else blake2b_iv ! 6),
          blake2b_iv ! 7]"

definition blake2b_finish :: "64 word list \<Rightarrow> 64 word list \<Rightarrow> 64 word list" where
  "blake2b_finish h v = map (\<lambda>i. h ! i XOR v ! i XOR v ! (i + 8)) [0, 1, 2, 3, 4, 5, 6, 7]"

definition blake2b_compress :: "64 word list \<Rightarrow> 64 word list \<Rightarrow> int \<Rightarrow> bool \<Rightarrow> 64 word list" where
  "blake2b_compress h m t final =
     blake2b_finish h (fold (blake2b_round m) [0, 1, 2, 3, 4, 5, 6, 7, 8, 9, 10, 11] (blake2b_init_v h t final))"

fun le_word :: "nat list \<Rightarrow> 64 word" where
  "le_word [] = 0"
| "le_word (b # bs) = word_of_nat b + push_bit 8 (le_word bs)"

fun words_of_block :: "nat \<Rightarrow> nat list \<Rightarrow> 64 word list" where
  "words_of_block 0 bs = []"
| "words_of_block (Suc n) bs = le_word (take 8 bs) # words_of_block n (drop 8 bs)"

function blake2b_blocks :: "64 word list \<Rightarrow> int \<Rightarrow> nat list \<Rightarrow> 64 word list" where
  "blake2b_blocks h t bs =
     (if length bs \<le> 128
      then blake2b_compress h (words_of_block 16 (bs @ replicate (128 - length bs) 0)) (t + int (length bs)) True
      else blake2b_blocks (blake2b_compress h (words_of_block 16 (take 128 bs)) (t + 128) False) (t + 128) (drop 128 bs))"
  by pat_completeness auto
termination
  by (relation "measure (\<lambda>(h, t, bs). length bs)") auto

declare blake2b_blocks.simps [simp del]

definition blake2b_8 :: "nat list \<Rightarrow> 64 word" where
  "blake2b_8 bs = hd (blake2b_blocks (blake2b_iv[0 := hd blake2b_iv XOR 0x01010008]) 0 bs)"

text \<open>\<open>repr\<close> of a Python integer, and of the tuples the hash routine builds.\<close>

function nat_digits :: "nat \<Rightarrow> string" where
  "nat_digits n = (if n < 10 then [char_of (48 + n)] else nat_digits (n div 10) @ [char_of (48 + n mod 10)])"
  by pat_completeness auto
termination
  by (relation "measure id") auto

declare nat_digits.simps [simp del]

definition repr_int :: "int \<Rightarrow> string" where
  "repr_int i = (if i < 0 then CHR ''-'' # nat_digits (nat (- i)) else nat_digits (nat i))"

datatype extra_state = ExtraInt int | ExtraMove move

definition repr_lm :: "move \<Rightarrow> string" where
  "repr_lm m = ''('lm', '' @ repr_int (src m) @ '', '' @ repr_int (dst m) @ '', ''
               @ (if is_ep m then ''1'' else ''0'') @ '')''"

definition repr_ep :: "int \<Rightarrow> string" where
  "repr_ep n = ''('ep', '' @ repr_int n @ '')''"

definition repr_extra :: "int \<Rightarrow> string" where
  "repr_extra n = ''('extra', '' @ repr_int n @ '')''"

definition stable_u64_from_obj :: "string \<Rightarrow> 64 word" where
  "stable_u64_from_obj r = blake2b_8 (map of_char r)"

subsection \<open>Zobrist hashing\<close>

text \<open>
  \<open>Z_PIECE\<close> and \<open>Z_TURN\<close> are drawn once from \<open>random.Random(1337)\<close>; the model takes
  them as given constants. \<open>deadline_passed n\<close> is the outcome of the \<open>n\<close>-th evaluation
  of \<open>time.perf_counter() >= deadline\<close> of one search: the clock, the budget computed by
  \<open>compute_time_budget\<close> and the deadline enter the search through these comparisons only.
\<close>

record env =
  Z_PIECE :: "nat \<Rightarrow> nat \<Rightarrow> 64 word"
  Z_TURN :: "64 word"
  deadline_passed :: "nat \<Rightarrow> bool"

text \<open>
  \<open>Z_PIECE[c][sq]\<close> on a list of 64 constants: an index in \<open>[-64, 0)\<close> counts from the
  end, any other index outside \<open>[0, 64)\<close> raises \<open>IndexError\<close>.
\<close>

definition Z_PIECE_at :: "env \<Rightarrow> nat \<Rightarrow> int \<Rightarrow> error + 64 word" where
  "Z_PIECE_at env c sq =
     (if 0 \<le> sq \<and> sq < 64 then Inr (Z_PIECE env c (nat sq))
      else if - 64 \<le> sq \<and> sq < 0 then Inr (Z_PIECE env c (nat (sq + 64)))
      else Inl IndexError)"

text \<open>
  \<open>for sq in pos.white: k ^= Z_PIECE[0][sq]\<close>. The set is iterated in ascending order
  here; exclusive-or is commutative and associative, so the order does not matter.
\<close>

fun xor_pieces :: "env \<Rightarrow> nat \<Rightarrow> int list \<Rightarrow> 64 word \<Rightarrow> error + 64 word" where
  "xor_pieces env c [] k = Inr k"
| "xor_pieces env c (sq # sqs) k =
     (case Z_PIECE_at env c sq of Inl e \<Rightarrow> Inl e | Inr z \<Rightarrow> xor_pieces env c sqs (k XOR z))"

text \<open>
  \<open>_extract_ep_like_state\<close> probes the attribute names in order; of these a position
  has \<open>ep_target\<close> and, when the search created it, \<open>last_move\<close>, and \<open>ep_target\<close>
  comes first.
\<close>

definition extract_ep_like_state :: "position \<Rightarrow> extra_state option" where
  "extract_ep_like_state pos =
     (case ep_target pos of
        Some v \<Rightarrow> Some (ExtraInt v)
      | None \<Rightarrow> (case last_move pos of Some m \<Rightarrow> Some (ExtraMove m) | None \<Rightarrow> None))"

definition extra_hash :: "extra_state option \<Rightarrow> 64 word" where
  "extra_hash extra =
     (case extra of
        None \<Rightarrow> 0
      | Some (ExtraMove m) \<Rightarrow> stable_u64_from_obj (repr_lm m)
      | Some (ExtraInt n) \<Rightarrow>
          if 0 \<le> n \<and> n < 64 then stable_u64_from_obj (repr_ep n)
          else stable_u64_from_obj (repr_extra n))"

definition zobrist_key :: "env \<Rightarrow> position \<Rightarrow> error + 64 word" where
  "zobrist_key env pos =
     (case xor_pieces env 0 (sorted_list_of_set (white pos)) 0 of
        Inl e \<Rightarrow> Inl e
      | Inr k1 \<Rightarrow>
          (case xor_pieces env 1 (sorted_list_of_set (black pos)) k1 of
             Inl e \<Rightarrow> Inl e
           | Inr k2 \<Rightarrow>
               (let k3 = (if turn pos = W then k2 XOR Z_TURN env else k2)
                in Inr (k3 XOR extra_hash (extract_ep_like_state pos)))))"

text \<open>
  The fingerprint in the words of the specification: the piece constants, the turn
  constant, and a constant keyed by \<open>ep_target\<close> when it is present, nothing otherwise.
\<close>

definition spec_zobrist_key :: "env \<Rightarrow> position \<Rightarrow> error + 64 word" where
  "spec_zobrist_key env pos =
     (case xor_pieces env 0 (sorted_list_of_set (white pos)) 0 of
        Inl e \<Rightarrow> Inl e
      | Inr k1 \<Rightarrow>
          (case xor_pieces env 1 (sorted_list_of_set (black pos)) k1 of
             Inl e \<Rightarrow> Inl e
           | Inr k2 \<Rightarrow>
               (let k3 = (if turn pos = W then k2 XOR Z_TURN env else k2)
                in Inr (k3 XOR (case ep_target pos of None \<Rightarrow> 0 | Some n \<Rightarrow> extra_hash (Some (ExtraInt n)))))))"

text \<open>
  What the fingerprint adds to that for a position the search created: when
  \<open>ep_target\<close> is absent, the digest of the attached last move, which is taken over
  its source, its destination and its en-passant flag (\<open>move_key\<close>).
\<close>

definition last_move_hash :: "position \<Rightarrow> 64 word" where
  "last_move_hash pos =
     (case ep_target pos of
        Some n \<Rightarrow> 0
      | None \<Rightarrow> (case last_move pos of None \<Rightarrow> 0 | Some m \<Rightarrow> stable_u64_from_obj (repr_lm m)))"

definition move_key :: "move option \<Rightarrow> (int \<times> int \<times> bool) option" where
  "move_key m = map_option (\<lambda>mv. (src mv, dst mv, is_ep mv)) m"

subsection \<open>The move applicator of the search\<close>

definition apply_move_fixed :: "position \<Rightarrow> move \<Rightarrow> error + position" where
  "apply_move_fixed pos mv =
     (let mover = turn pos in
      case apply_move pos mv of
        Inl e \<Rightarrow> Inl e
      | Inr new_pos \<Rightarrow>
          (let new_pos1 =
                 (if is_ep mv then
                    (let cap_sq = (if mover = W then dst mv - 8 else dst mv + 8) in
                     if mover = W then new_pos\<lparr>black := black new_pos - {cap_sq}\<rparr>
                     else new_pos\<lparr>white := white new_pos - {cap_sq}\<rparr>)
                  else new_pos)
           in Inr (new_pos1\<lparr>last_move := Some mv\<rparr>)))"

definition is_capture :: "position \<Rightarrow> move \<Rightarrow> bool" where
  "is_capture pos mv = (is_ep mv \<or> dst mv \<in> opp_of pos)"


subsection \<open>Alpha-beta search\<close>

text \<open>One evaluation of \<open>time.perf_counter() >= deadline\<close>.\<close>

definition time_up :: "env \<Rightarrow> search_state \<Rightarrow> bool \<times> search_state" where
  "time_up env st = (deadline_passed env (clock_reads st), st\<lparr>clock_reads := Suc (clock_reads st)\<rparr>)"

text \<open>
  \<open>moves.sort(key=lambda m: 1 if _is_capture(pos, m) else 0, reverse=True)\<close>: the sort
  is stable, also when reversed, so the captures come first and each group keeps its
  order.
\<close>

definition capture_first :: "position \<Rightarrow> move list \<Rightarrow> move list" where
  "capture_first pos moves = filter (is_capture pos) moves @ filter (\<lambda>m. \<not> is_capture pos m) moves"

definition tt_move_first :: "tt_entry option \<Rightarrow> move list \<Rightarrow> move list" where
  "tt_move_first entry moves =
     (case entry of
        None \<Rightarrow> moves
      | Some e \<Rightarrow>
          (case entry_best_move e of
             None \<Rightarrow> moves
           | Some bm \<Rightarrow> if bm \<in> set moves then bm # remove1 bm moves else moves))"

text \<open>
  \<open>_alphabeta\<close> with its two iterations over the ordered moves: \<open>ab_max\<close> is the loop of the
  maximizing branch, \<open>ab_min\<close> the loop of the minimizing branch. A loop returns the
  value \<open>v\<close> and the best move it ends with.
\<close>

function alphabeta :: "env \<Rightarrow> position \<Rightarrow> int \<Rightarrow> int \<Rightarrow> int \<Rightarrow> search_state \<Rightarrow> error + (int \<times> search_state)"
  and ab_max :: "env \<Rightarrow> position \<Rightarrow> int \<Rightarrow> int \<Rightarrow> int \<Rightarrow> int \<Rightarrow> move option \<Rightarrow> move list \<Rightarrow> search_state
                 \<Rightarrow> error + ((int \<times> move option) \<times> search_state)"
  and ab_min :: "env \<Rightarrow> position \<Rightarrow> int \<Rightarrow> int \<Rightarrow> int \<Rightarrow> int \<Rightarrow> move option \<Rightarrow> move list \<Rightarrow> search_state
                 \<Rightarrow> error + ((int \<times> move option) \<times> search_state)"
where
  "alphabeta env pos d alpha beta st0 =
     (case time_up env (st0\<lparr>NODES := NODES st0 + 1\<rparr>) of
        (up, st1) \<Rightarrow>
          if up then Inr (evaluate pos, st1)
          else
            (case winner pos of
               Some w \<Rightarrow> Inr (if w = W then 10 ^ 12 else - (10 ^ 12), st1)
             | None \<Rightarrow>
                 if d \<le> 0 then Inr (evaluate pos, st1)
                 else
                   (case zobrist_key env pos of
                      Inl e \<Rightarrow> Inl e
                    | Inr key \<Rightarrow>
                        (case tt_probe key d alpha beta st1 of
                           ((hit, alpha1, beta1, exact_val), st2) \<Rightarrow>
                             (case exact_val of
                                Some v \<Rightarrow> Inr (v, st2)
                              | None \<Rightarrow>
                                  if generate_moves pos = [] then Inr (evaluate pos, st2)
                                  else if turn pos = W then
                                    (case ab_max env pos d alpha1 beta1 (- (10 ^ 18)) None
                                            (tt_move_first (Mapping.lookup (TT st2) key)
                                               (capture_first pos (generate_moves pos))) st2 of
                                       Inl e \<Rightarrow> Inl e
                                     | Inr ((v, bm), st3) \<Rightarrow> Inr (v, tt_store key d v alpha beta bm st3))
                                  else
                                    (case ab_min env pos d alpha1 beta1 (10 ^ 18) None
                                            (tt_move_first (Mapping.lookup (TT st2) key)
                                               (capture_first pos (generate_moves pos))) st2 of
                                       Inl e \<Rightarrow> Inl e
                                     | Inr ((v, bm), st3) \<Rightarrow> Inr (v, tt_store key d v alpha beta bm st3)))))))"
| "ab_max env pos d alpha beta v bm [] st = Inr ((v, bm), st)"
| "ab_max env pos d alpha beta v bm (mv # mvs) st =
     (case time_up env st of
        (up, st1) \<Rightarrow>
          if up then Inr ((v, bm), st1)
          else
            (case apply_move_fixed pos mv of
               Inl e \<Rightarrow> Inl e
             | Inr child_pos \<Rightarrow>
                 (case alphabeta env child_pos (d - 1) alpha beta st1 of
                    Inl e \<Rightarrow> Inl e
                  | Inr (child, st2) \<Rightarrow>
                      if beta \<le> max alpha (if child > v then child else v)
                      then Inr ((if child > v then child else v, if child > v then Some mv else bm), st2)
                      else ab_max env pos d (max alpha (if child > v then child else v)) beta
                             (if child > v then child else v) (if child > v then Some mv else bm) mvs st2)))"
| "ab_min env pos d alpha beta v bm [] st = Inr ((v, bm), st)"
| "ab_min env pos d alpha beta v bm (mv # mvs) st =
     (case time_up env st of
        (up, st1) \<Rightarrow>
          if up then Inr ((v, bm), st1)
          else
            (case apply_move_fixed pos mv of
               Inl e \<Rightarrow> Inl e
             | Inr child_pos \<Rightarrow>
                 (case alphabeta env child_pos (d - 1) alpha beta st1 of
                    Inl e \<Rightarrow> Inl e
                  | Inr (child, st2) \<Rightarrow>
                      if min beta (if child < v then child else v) \<le> alpha
                      then Inr ((if child < v then child else v, if child < v then Some mv else bm), st2)
                      else ab_min env pos d alpha (min beta (if child < v then child else v))
                             (if child < v then child else v) (if child < v then Some mv else bm) mvs st2)))"
  by pat_completeness auto
termination
  by (relation "inv_image (less_than <*lex*> less_than <*lex*> less_than)
        (\<lambda>x. case x of
                Inl (env, pos, d, alpha, beta, st) \<Rightarrow> (nat d, if d \<le> 0 then 0 else 2, 0)
              | Inr (Inl (env, pos, d, alpha, beta, v, bm, mvs, st)) \<Rightarrow> (nat d, 1::nat, length mvs)
              | Inr (Inr (env, pos, d, alpha, beta, v, bm, mvs, st)) \<Rightarrow> (nat d, 1, length mvs))")
     auto


declare alphabeta.simps [simp del]

subsection \<open>Root search and iterative deepening\<close>

text \<open>The loop over the root moves in \<open>_search_depth\<close>.\<close>

fun root_loop :: "env \<Rightarrow> position \<Rightarrow> int \<Rightarrow> bool \<Rightarrow> int \<Rightarrow> int \<Rightarrow> int \<Rightarrow> move option \<Rightarrow> move list \<Rightarrow> search_state
                  \<Rightarrow> error + ((int \<times> move option) \<times> search_state)" where
  "root_loop env pos d maximizing alpha beta best_val best_mv [] st = Inr ((best_val, best_mv), st)"
| "root_loop env pos d maximizing alpha beta best_val best_mv (mv # mvs) st =
     (case time_up env st of
        (up, st1) \<Rightarrow>
          if up then Inr ((best_val, best_mv), st1)
          else
            (case apply_move_fixed pos mv of
               Inl e \<Rightarrow> Inl e
             | Inr child_pos \<Rightarrow>
                 (case alphabeta env child_pos (d - 1) alpha beta st1 of
                    Inl e \<Rightarrow> Inl e
                  | Inr (val, st2) \<Rightarrow>
                      (let better = (if maximizing then val > best_val else val < best_val);
                           best_val1 = (if better then val else best_val);
                           best_mv1 = (if better then Some mv else best_mv);
                           alpha1 = (if maximizing then max alpha best_val1 else alpha);
                           beta1 = (if maximizing then beta else min beta best_val1)
                       in if beta1 \<le> alpha1 then Inr ((best_val1, best_mv1), st2)
                          else root_loop env pos d maximizing alpha1 beta1 best_val1 best_mv1 mvs st2))))"

definition search_depth :: "env \<Rightarrow> position \<Rightarrow> int \<Rightarrow> search_state \<Rightarrow> error + ((move option \<times> int) \<times> search_state)" where
  "search_depth env pos d st =
     (let maximizing = (turn pos = W);
          best_val = (if maximizing then - (10 ^ 18) else 10 ^ 18);
          moves = generate_moves pos
      in if moves = [] then Inr ((None, evaluate pos), st)
         else
           (case zobrist_key env pos of
              Inl e \<Rightarrow> Inl e
            | Inr key \<Rightarrow>
                (let moves1 = tt_move_first (Mapping.lookup (TT st) key) (capture_first pos moves);
                     alpha = - (10 ^ 18);
                     beta = 10 ^ 18
                 in case root_loop env pos d maximizing alpha beta best_val None moves1 st of
                      Inl e \<Rightarrow> Inl e
                    | Inr ((best_val1, best_mv), st1) \<Rightarrow>
                        Inr ((best_mv, best_val1), tt_store key d best_val1 alpha beta best_mv st1))))"

text \<open>The \<open>while depth <= max_depth\<close> loop of \<open>choose_move_iterdeep\<close>.\<close>

function iterdeep_loop :: "env \<Rightarrow> position \<Rightarrow> int \<Rightarrow> int \<Rightarrow> move option \<Rightarrow> search_state
                           \<Rightarrow> error + (move option \<times> search_state)" where
  "iterdeep_loop env pos max_depth d best st =
     (if d \<le> max_depth then
        (case time_up env st of
           (up, st1) \<Rightarrow>
             if up then Inr (best, st1)
             else
               (case search_depth env pos d st1 of
                  Inl e \<Rightarrow> Inl e
                | Inr ((mv, val), st2) \<Rightarrow>
                    iterdeep_loop env pos max_depth (d + 1) (case mv of Some m \<Rightarrow> Some m | None \<Rightarrow> best) st2))
      else Inr (best, st))"
  by pat_completeness auto
termination
  by (relation "measure (\<lambda>(env, pos, max_depth, d, best, st). nat (max_depth + 1 - d))") auto

declare iterdeep_loop.simps [simp del]

text \<open>
  \<open>choose_move_iterdeep(pos, time_left_sec, max_depth)\<close>. The argument \<open>time_left_sec\<close>
  fixes the deadline and so is part of \<open>deadline_passed\<close>. A position without a legal
  move ends in \<open>RuntimeError("No legal moves.")\<close>, the error \<open>NoLegalMoves\<close> here.
\<close>

definition choose_move_iterdeep :: "env \<Rightarrow> position \<Rightarrow> int \<Rightarrow> search_state \<Rightarrow> error + (move \<times> search_state)" where
  "choose_move_iterdeep env pos max_depth st =
     (case iterdeep_loop env pos max_depth 1 None (st\<lparr>NODES := 0\<rparr>) of
        Inl e \<Rightarrow> Inl e
      | Inr (best, st1) \<Rightarrow>
          (case best of
             Some mv \<Rightarrow> Inr (mv, st1)
           | None \<Rightarrow>
               (case generate_moves pos of
                  [] \<Rightarrow> Inl NoLegalMoves
                | mv # mvs \<Rightarrow> Inr (mv, st1))))"

text \<open>A result of the search is a legal move of the position, or no move at all.\<close>

definition legal_or_none :: "position \<Rightarrow> move option \<Rightarrow> bool" where
  "legal_or_none pos m = (case m of None \<Rightarrow> True | Some mv \<Rightarrow> mv \<in> set (generate_moves pos))"

text \<open>
  An environment for worked examples: all hashing constants zero, and a deadline that
  passes at the hundredth check.
\<close>

definition example_env :: env where
  "example_env = \<lparr>Z_PIECE = (\<lambda>c sq. 0), Z_TURN = 0, deadline_passed = (\<lambda>n. n \<ge> 100)\<rparr>"

section \<open>Setup import (twoflags/game.py, twoflags/notation.py)\<close>

text \<open>
  Strings are lists of 8-bit characters. \<open>str.strip\<close> removes the characters Python
  counts as whitespace; \<open>str.upper\<close> and \<open>str.lower\<close> act on the ASCII letters, the only
  characters whose case matters to the comparisons below.
\<close>

definition py_isspace :: "char \<Rightarrow> bool" where
  "py_isspace c = ((of_char c :: nat) \<in> {9, 10, 11, 12, 13, 28, 29, 30, 31, 32, 133, 160})"

definition py_strip :: "string \<Rightarrow> string" where
  "py_strip s = rev (dropWhile py_isspace (rev (dropWhile py_isspace s)))"

definition py_upper_char :: "char \<Rightarrow> char" where
  "py_upper_char c = (if 97 \<le> (of_char c :: nat) \<and> (of_char c :: nat) \<le> 122 then char_of ((of_char c :: nat) - 32) else c)"

definition py_lower_char :: "char \<Rightarrow> char" where
  "py_lower_char c = (if 65 \<le> (of_char c :: nat) \<and> (of_char c :: nat) \<le> 90 then char_of ((of_char c :: nat) + 32) else c)"

definition FILES :: string where
  "FILES = ''abcdefgh''"

text \<open>\<open>FILES.find(c)\<close> for one character \<open>c\<close>: its index, or \<open>-1\<close>.\<close>

fun find_from :: "char \<Rightarrow> string \<Rightarrow> int \<Rightarrow> int" where
  "find_from c [] i = - 1"
| "find_from c (x # xs) i = (if x = c then i else find_from c xs (i + 1))"

definition FILES_find :: "char \<Rightarrow> int" where
  "FILES_find c = find_from c FILES 0"

definition digit_val :: "char \<Rightarrow> int" where
  "digit_val c = int (of_char c) - 48"

definition fr_to_square :: "string \<Rightarrow> error + int" where
  "fr_to_square fr0 =
     (let fr = py_strip fr0 in
      if length fr \<noteq> 2 then Inl ValueError
      else
        (let f = FILES_find (fr ! 0) in
         if f < 0 then Inl ValueError
         else if (of_char (fr ! 1) :: nat) < of_char CHR ''1'' \<or> (of_char (fr ! 1) :: nat) > of_char CHR ''8''
         then Inl ValueError
         else Inr (sq_index f (digit_val (fr ! 1)))))"

text \<open>The loop of \<open>Position.from_setup_tokens\<close> over the tokens, with its two sets.\<close>

fun setup_tokens_loop :: "string list \<Rightarrow> int set \<Rightarrow> int set \<Rightarrow> error + (int set \<times> int set)" where
  "setup_tokens_loop [] w b = Inr (w, b)"
| "setup_tokens_loop (t0 # ts) w b =
     (let t = py_strip t0 in
      if length t < 3 then setup_tokens_loop ts w b
      else
        (let side = t ! 0 in
         case fr_to_square (tl t) of
           Inl e \<Rightarrow> Inl e
         | Inr sq \<Rightarrow>
             if side = CHR ''W'' then setup_tokens_loop ts (insert sq w) b
             else if side = CHR ''B'' then setup_tokens_loop ts w (insert sq b)
             else Inl ValueError))"

definition from_setup_tokens :: "string list \<Rightarrow> color \<Rightarrow> error + position" where
  "from_setup_tokens tokens t =
     (case setup_tokens_loop tokens {} {} of
        Inl e \<Rightarrow> Inl e
      | Inr (w, b) \<Rightarrow> Inr (Position w b t None))"

text \<open>
  \<open>parse_square\<close>: the token, stripped and lower-cased, must match
  \<open>^[a-h][1-8]$|^[1-8][a-h]$\<close>.
\<close>

definition is_file_char :: "char \<Rightarrow> bool" where
  "is_file_char c = (97 \<le> (of_char c :: nat) \<and> (of_char c :: nat) \<le> 104)"

definition is_rank_char :: "char \<Rightarrow> bool" where
  "is_rank_char c = (49 \<le> (of_char c :: nat) \<and> (of_char c :: nat) \<le> 56)"

definition parse_square :: "string \<Rightarrow> error + int" where
  "parse_square token =
     (let t = map py_lower_char (py_strip token) in
      if length t = 2 \<and> is_file_char (t ! 0) \<and> is_rank_char (t ! 1)
      then Inr (sq_index (FILES_find (t ! 0)) (digit_val (t ! 1)))
      else if length t = 2 \<and> is_rank_char (t ! 0) \<and> is_file_char (t ! 1)
      then Inr (sq_index (FILES_find (t ! 1)) (digit_val (t ! 0)))
      else Inl ValueError)"

fun parse_setup_loop :: "string list \<Rightarrow> int set \<Rightarrow> int set \<Rightarrow> error + (int set \<times> int set)" where
  "parse_setup_loop [] w b = Inr (w, b)"
| "parse_setup_loop (tok # toks) w b =
     (let t = py_strip tok in
      if length t \<noteq> 3 then Inl ValueError
      else
        (let col = py_upper_char (t ! 0) in
         case parse_square (take 2 (drop 1 t)) of
           Inl e \<Rightarrow> Inl e
         | Inr sq \<Rightarrow>
             if col = CHR ''W'' then parse_setup_loop toks (insert sq w) b
             else if col = CHR ''B'' then parse_setup_loop toks w (insert sq b)
             else Inl ValueError))"

definition parse_setup :: "string list \<Rightarrow> error + position" where
  "parse_setup tokens =
     (case tokens of
        [] \<Rightarrow> Inl ValueError
      | t0 # toks \<Rightarrow>
          if map py_lower_char t0 \<noteq> ''setup'' then Inl ValueError
          else
            (case parse_setup_loop toks {} {} of
               Inl e \<Rightarrow> Inl e
             | Inr (w, b) \<Rightarrow> Inr (Position w b W None)))"

text \<open>
  A well-formed setup token in the words of the specification: exactly three
  characters, the colour \<open>W\<close> or \<open>B\<close>, a file \<open>a..h\<close> and a rank \<open>1..8\<close>.
\<close>

definition spec_well_formed_token :: "string \<Rightarrow> bool" where
  "spec_well_formed_token t =
     (length t = 3 \<and> (t ! 0 = CHR ''W'' \<or> t ! 0 = CHR ''B'') \<and> is_file_char (t ! 1) \<and> is_rank_char (t ! 2))"

text \<open>
  What each parser accepts. \<open>from_setup_tokens\<close> looks at a token of at least three
  characters (after stripping): the colour is exactly \<open>W\<close> or \<open>B\<close>, and the rest,
  stripped, is a file and a rank. \<open>parse_setup\<close> wants three characters: a colour
  \<open>W\<close> or \<open>B\<close> in either case, then a file and a rank in either order and case.
\<close>

definition valid_fr :: "string \<Rightarrow> bool" where
  "valid_fr fr = (length fr = 2 \<and> is_file_char (fr ! 0) \<and> is_rank_char (fr ! 1))"

definition valid_rf :: "string \<Rightarrow> bool" where
  "valid_rf fr = (length fr = 2 \<and> is_rank_char (fr ! 0) \<and> is_file_char (fr ! 1))"

definition game_token_ok :: "string \<Rightarrow> bool" where
  "game_token_ok t =
     ((py_strip t ! 0 = CHR ''W'' \<or> py_strip t ! 0 = CHR ''B'') \<and> valid_fr (py_strip (tl (py_strip t))))"

definition notation_token_ok :: "string \<Rightarrow> bool" where
  "notation_token_ok t =
     (length (py_strip t) = 3
      \<and> (py_upper_char (py_strip t ! 0) = CHR ''W'' \<or> py_upper_char (py_strip t ! 0) = CHR ''B'')
      \<and> (valid_fr (map py_lower_char (py_strip (take 2 (drop 1 (py_strip t)))))
          \<or> valid_rf (map py_lower_char (py_strip (take 2 (drop 1 (py_strip t)))))))"

section \<open>Properties\<close>

lemma set_sorted_list_of_set_subset: "set (sorted_list_of_set A) \<subseteq> A"
  by (cases "finite A") auto

lemma forward_moves_facts:
  "mv \<in> set (forward_moves pos s) \<Longrightarrow> src mv = s \<and> 0 \<le> dst mv \<and> dst mv < 64 \<and> \<not> is_ep mv \<and> dst mv \<notin> occupied pos"
  by (auto simp: forward_moves_def Let_def Move_def split: if_splits)

lemma capture_moves_facts:
  "mv \<in> set (capture_moves pos s) \<Longrightarrow> src mv = s \<and> 0 \<le> dst mv \<and> dst mv < 64 \<and> \<not> is_ep mv \<and> dst mv \<in> opp_of pos"
  by (auto simp: capture_moves_def cap_deltas_of_def Let_def Move_def split: if_splits)

lemma ep_moves_facts:
  "mv \<in> set (ep_moves pos s) \<Longrightarrow>
     src mv = s \<and> 0 \<le> dst mv \<and> dst mv < 64 \<and> is_ep mv \<and> dst mv \<notin> occupied pos
     \<and> dst mv - fwd_of pos \<in> opp_of pos \<and> ep_target pos = Some (dst mv)"
  by (auto simp: ep_moves_def ep_deltas_of_def Let_def Move_def split: if_splits option.splits)

lemma generate_moves_cases:
  assumes "mv \<in> set (generate_moves pos)"
  shows "src mv \<in> pawns_of pos \<and>
         (mv \<in> set (forward_moves pos (src mv)) \<or> mv \<in> set (capture_moves pos (src mv)) \<or> mv \<in> set (ep_moves pos (src mv)))"
proof -
  from assms obtain s where s: "s \<in> set (sorted_list_of_set (pawns_of pos))" and m: "mv \<in> set (pawn_moves pos s)"
    by (auto simp: generate_moves_def)
  from m have "src mv = s"
    using forward_moves_facts capture_moves_facts ep_moves_facts by (auto simp: pawn_moves_def)
  with s m set_sorted_list_of_set_subset[of "pawns_of pos"] show ?thesis
    by (auto simp: pawn_moves_def)
qed

lemma generate_moves_facts:
  assumes "mv \<in> set (generate_moves pos)"
  shows "src mv \<in> pawns_of pos" "0 \<le> dst mv" "dst mv < 64"
    "is_ep mv \<Longrightarrow> dst mv \<notin> occupied pos \<and> dst mv - fwd_of pos \<in> opp_of pos \<and> ep_target pos = Some (dst mv)"
  using generate_moves_cases[OF assms] forward_moves_facts capture_moves_facts ep_moves_facts
  by blast+

lemma apply_move_generated_ep:
  assumes "mv \<in> set (generate_moves pos)" and "is_ep mv"
  shows "\<exists>pos'. apply_move pos mv = Inr pos'
           \<and> dst mv - fwd_of pos \<in> opp_of pos
           \<and> dst mv - fwd_of pos \<in> (if turn pos = W then black pos' else white pos')"
proof -
  from generate_moves_facts[OF assms(1)] assms(2)
  have "src mv \<in> pawns_of pos" "dst mv \<notin> occupied pos" "dst mv - fwd_of pos \<in> opp_of pos"
    by auto
  then show ?thesis
    by (auto simp: apply_move_def Let_def occupied_def opp_of_def pawns_of_def fwd_of_def split: if_splits)
qed

text \<open>
  Claim C2. For every position and every en-passant move that \<open>generate_moves\<close> yields
  for it, \<open>apply_move\<close> returns a position in which the passed-over pawn, on the square
  one forward step behind the destination, is still in the opponent's set.
\<close>

theorem apply_move_ep_keeps_pawn:
  assumes "mv \<in> set (generate_moves pos)" and "is_ep mv"
  shows "\<exists>pos'. apply_move pos mv = Inr pos'
           \<and> dst mv - fwd_of pos \<in> opp_of pos
           \<and> dst mv - fwd_of pos \<in> (if turn pos = W then black pos' else white pos')"
  using assms by (rule apply_move_generated_ep)

lemma apply_move_board_ok:
  assumes "board_ok pos" and "mv \<in> set (generate_moves pos)"
  shows "\<exists>pos'. apply_move pos mv = Inr pos' \<and> board_ok pos'"
proof -
  from generate_moves_facts[OF assms(2)]
  have "src mv \<in> pawns_of pos" "0 \<le> dst mv" "dst mv < 64" by auto
  with assms(1) show ?thesis
    by (auto simp: apply_move_def Let_def board_ok_def opp_of_def pawns_of_def split: if_splits)
qed

lemma board_ok_initial: "board_ok initial"
  by (auto simp: board_ok_def initial_def Position_def sq_index_def)

lemma reachable_board_ok: "reachable pos \<Longrightarrow> board_ok pos"
proof (induction rule: reachable.induct)
  case reachable_initial
  show ?case by (rule board_ok_initial)
next
  case (reachable_step pos mv pos')
  then show ?case using apply_move_board_ok[of pos mv] by auto
qed

text \<open>
  Claim C5. When the white and black sets of a position are disjoint and within
  \<open>[0, 64)\<close>, applying a generated move yields a position of which the same holds; so
  it holds of every position reachable from the initial position.
\<close>

theorem apply_move_preserves_board_ok:
  "(board_ok pos \<and> mv \<in> set (generate_moves pos) \<longrightarrow> (\<exists>pos'. apply_move pos mv = Inr pos' \<and> board_ok pos'))
   \<and> (reachable p \<longrightarrow> board_ok p)"
  using apply_move_board_ok reachable_board_ok by blast

text \<open>
  Claim C4. \<open>winner\<close> decides in this order: a white pawn on rank 8 gives white; else
  a black pawn on rank 1 gives black; else a side without pawns loses (white wins when
  black has none, then black wins when white has none); else the side to move loses
  when it has no legal move; otherwise there is no winner.
\<close>

theorem winner_order:
  "((\<exists>sq \<in> white pos. rank_of sq = 8) \<longrightarrow> winner pos = Some W)
   \<and> (\<not> (\<exists>sq \<in> white pos. rank_of sq = 8) \<and> (\<exists>sq \<in> black pos. rank_of sq = 1) \<longrightarrow> winner pos = Some B)
   \<and> (\<not> (\<exists>sq \<in> white pos. rank_of sq = 8) \<and> \<not> (\<exists>sq \<in> black pos. rank_of sq = 1) \<longrightarrow>
        (black pos = {} \<longrightarrow> winner pos = Some W)
        \<and> (black pos \<noteq> {} \<and> white pos = {} \<longrightarrow> winner pos = Some B)
        \<and> (black pos \<noteq> {} \<and> white pos \<noteq> {} \<and> generate_moves pos = [] \<longrightarrow> winner pos = Some (other (turn pos)))
        \<and> (black pos \<noteq> {} \<and> white pos \<noteq> {} \<and> generate_moves pos \<noteq> [] \<longrightarrow> winner pos = None))"
  by (simp add: winner_def rank_of_def other_def)

lemma generated_ep_example: "Move 36 43 True False \<in> set (generate_moves (Position {36} {35} W (Some 43)))"
  by (simp add: generate_moves_def pawn_moves_def forward_moves_def capture_moves_def ep_moves_def
        Position_def Move_def pawns_of_def opp_of_def fwd_of_def occupied_def cap_deltas_of_def ep_deltas_of_def
        start_rank_of_def rank_of_def file_of_def Let_def)

lemma generated_initial_example: "Move 8 16 False False \<in> set (generate_moves initial)"
  by (simp add: generate_moves_def pawn_moves_def forward_moves_def capture_moves_def ep_moves_def initial_def sq_index_def
        Position_def Move_def pawns_of_def opp_of_def fwd_of_def occupied_def cap_deltas_of_def ep_deltas_of_def
        start_rank_of_def rank_of_def file_of_def Let_def)


theorem apply_move_ep_keeps_pawn_witness:
  "Move 36 43 True False \<in> set (generate_moves (Position {36} {35} W (Some 43)))
   \<and> is_ep (Move 36 43 True False)
   \<and> (\<exists>pos'. apply_move (Position {36} {35} W (Some 43)) (Move 36 43 True False) = Inr pos'
         \<and> dst (Move 36 43 True False) - fwd_of (Position {36} {35} W (Some 43)) \<in> opp_of (Position {36} {35} W (Some 43))
         \<and> dst (Move 36 43 True False) - fwd_of (Position {36} {35} W (Some 43))
             \<in> (if turn (Position {36} {35} W (Some 43)) = W then black pos' else white pos'))"
proof -
  have h2: "is_ep (Move 36 43 True False)" by (simp add: Move_def)
  show ?thesis
    using apply_move_ep_keeps_pawn[OF generated_ep_example h2] generated_ep_example h2 by blast
qed

theorem apply_move_preserves_board_ok_witness:
  "board_ok initial \<and> Move 8 16 False False \<in> set (generate_moves initial)
   \<and> (\<exists>pos'. apply_move initial (Move 8 16 False False) = Inr pos' \<and> board_ok pos')
   \<and> reachable initial \<and> board_ok initial"
  using apply_move_preserves_board_ok[of initial "Move 8 16 False False" initial]
    board_ok_initial generated_initial_example reachable_initial by blast

lemma generate_moves_blocked: "generate_moves (Position {16} {24} W None) = []"
  by (simp add: generate_moves_def pawn_moves_def forward_moves_def capture_moves_def ep_moves_def
        Position_def Move_def pawns_of_def opp_of_def fwd_of_def occupied_def cap_deltas_of_def ep_deltas_of_def
        start_rank_of_def rank_of_def file_of_def Let_def)

lemma generate_moves_open: "generate_moves (Position {8} {48} W None) \<noteq> []"
  by (simp add: generate_moves_def pawn_moves_def forward_moves_def capture_moves_def ep_moves_def
        Position_def Move_def pawns_of_def opp_of_def fwd_of_def occupied_def cap_deltas_of_def ep_deltas_of_def
        start_rank_of_def rank_of_def file_of_def Let_def)

theorem winner_order_witness:
  "winner (Position {56} {8} W None) = Some W
   \<and> winner (Position {16} {0} W None) = Some B
   \<and> winner (Position {16} {} B None) = Some W
   \<and> winner (Position {} {40} W None) = Some B
   \<and> winner (Position {16} {24} W None) = Some B
   \<and> winner (Position {8} {48} W None) = None"
proof (intro conjI)
  show "winner (Position {56} {8} W None) = Some W"
    using winner_order[of "Position {56} {8} W None"] by (simp add: Position_def rank_of_def)
  show "winner (Position {16} {0} W None) = Some B"
    using winner_order[of "Position {16} {0} W None"] by (simp add: Position_def rank_of_def)
  show "winner (Position {16} {} B None) = Some W"
    using winner_order[of "Position {16} {} B None"] by (simp add: Position_def rank_of_def)
  show "winner (Position {} {40} W None) = Some B"
    using winner_order[of "Position {} {40} W None"] by (simp add: Position_def rank_of_def)
  show "winner (Position {16} {24} W None) = Some B"
    using winner_order[of "Position {16} {24} W None"] generate_moves_blocked
    by (simp add: Position_def rank_of_def other_def)
  show "winner (Position {8} {48} W None) = None"
    using winner_order[of "Position {8} {48} W None"] generate_moves_open
    by (simp add: Position_def rank_of_def)
qed

text \<open>
  Claim C7, amended. Every store, of a new key or over an existing entry whose depth is
  not greater than the new depth, writes an entry classified against the original
  window: a value at or below the original alpha is an upper bound, otherwise a value
  at or above the original beta is a lower bound, otherwise the value is exact. An
  existing entry of greater depth is left as it is, and nothing is written. After a
  write the whole table is emptied when it holds more than \<open>TT_MAX_SIZE\<close> entries, and
  is kept otherwise.
\<close>

theorem tt_store_classification:
  "((Mapping.lookup (TT st) key = None \<or> (\<exists>old. Mapping.lookup (TT st) key = Some old \<and> entry_depth old \<le> d)) \<longrightarrow>
      tt_store key d v alpha_in beta_in bm st
        = tt_maybe_evict
            (st\<lparr>TT := Mapping.update key
                         \<lparr>entry_depth = d, entry_value = v,
                            entry_flag = (if v \<le> alpha_in then UPPER else if beta_in \<le> v then LOWER else EXACT),
                            entry_best_move = bm\<rparr> (TT st),
                 TT_STORES := TT_STORES st + 1\<rparr>))
   \<and> ((\<exists>old. Mapping.lookup (TT st) key = Some old \<and> d < entry_depth old) \<longrightarrow>
        tt_store key d v alpha_in beta_in bm st = st)
   \<and> (Mapping.size (TT s) \<le> TT_MAX_SIZE \<longrightarrow> tt_maybe_evict s = s)
   \<and> (TT_MAX_SIZE < Mapping.size (TT s) \<longrightarrow> tt_maybe_evict s = s\<lparr>TT := Mapping.empty\<rparr>)"
  by (auto simp: tt_store_def tt_maybe_evict_def store_flag_def Let_def)

text \<open>
  Claim C8. A probe uses a stored entry only when its depth is at least the requested
  depth. An exact entry supplies its value; a lower-bound entry raises alpha to at
  least its value; an upper-bound entry lowers beta to at most its value; when the
  tightened window is closed the probe returns the stored value.
\<close>

theorem tt_probe_rules:
  "(Mapping.lookup (TT st) key = None \<longrightarrow> tt_probe key d alpha beta st = ((False, alpha, beta, None), st))
   \<and> (Mapping.lookup (TT st) key = Some e \<and> entry_depth e < d \<longrightarrow>
        tt_probe key d alpha beta st = ((False, alpha, beta, None), st))
   \<and> (Mapping.lookup (TT st) key = Some e \<and> entry_depth e \<ge> d \<longrightarrow>
        (entry_flag e = EXACT \<longrightarrow>
           fst (tt_probe key d alpha beta st) = (True, alpha, beta, Some (entry_value e)))
        \<and> (entry_flag e = LOWER \<longrightarrow>
           fst (tt_probe key d alpha beta st)
             = (True, max alpha (entry_value e), beta,
                if max alpha (entry_value e) \<ge> beta then Some (entry_value e) else None))
        \<and> (entry_flag e = UPPER \<longrightarrow>
           fst (tt_probe key d alpha beta st)
             = (True, alpha, min beta (entry_value e),
                if alpha \<ge> min beta (entry_value e) then Some (entry_value e) else None))
        \<and> snd (tt_probe key d alpha beta st) = st\<lparr>TT_HITS := TT_HITS st + 1\<rparr>)"
  by (auto simp: tt_probe_def Let_def EXACT_def LOWER_def UPPER_def)


text \<open>
  Claim C7 as stated fails where the value equals the original alpha: the stored flag
  is the upper bound, while "below alpha, else at or above beta, else exact" gives exact.
\<close>

theorem tt_store_flag_counterexample:
  "Mapping.lookup (TT (tt_store 0 1 5 5 10 None fresh_state)) 0
     = Some \<lparr>entry_depth = 1, entry_value = 5, entry_flag = UPPER, entry_best_move = None\<rparr>
   \<and> spec_store_flag 5 5 10 = EXACT \<and> UPPER \<noteq> EXACT"
  by (simp add: tt_store_def tt_maybe_evict_def store_flag_def spec_store_flag_def fresh_state_def
        Let_def Mapping.size_def TT_MAX_SIZE_def UPPER_def EXACT_def)

lemma held_lookup: "Mapping.lookup (TT held_state) 0 = Some held_entry"
  by (simp add: held_state_def fresh_state_def)

lemma held_entry_fields: "entry_depth held_entry = 3" "entry_value held_entry = 7" "entry_flag held_entry = EXACT"
  by (simp_all add: held_entry_def)

lemma size_one: "Mapping.size (Mapping.update k e Mapping.empty) \<le> TT_MAX_SIZE"
  by (simp add: Mapping.size_def TT_MAX_SIZE_def)

lemma size_one_again: "Mapping.size (Mapping.update k e (Mapping.update k e' Mapping.empty)) \<le> TT_MAX_SIZE"
  by (simp add: Mapping.size_def TT_MAX_SIZE_def)

theorem tt_store_classification_witness:
  "Mapping.lookup (TT (tt_store 0 1 5 5 10 None fresh_state)) 0
     = Some \<lparr>entry_depth = 1, entry_value = 5, entry_flag = UPPER, entry_best_move = None\<rparr>
   \<and> Mapping.lookup (TT (tt_store 0 4 12 5 10 None held_state)) 0
     = Some \<lparr>entry_depth = 4, entry_value = 12, entry_flag = LOWER, entry_best_move = None\<rparr>
   \<and> tt_store 0 2 5 5 10 None held_state = held_state"
proof (intro conjI)
  let ?e1 = "\<lparr>entry_depth = 1, entry_value = 5, entry_flag = UPPER, entry_best_move = None\<rparr>"
  let ?s1 = "fresh_state\<lparr>TT := Mapping.update 0 ?e1 (TT fresh_state), TT_STORES := TT_STORES fresh_state + 1\<rparr>"
  have n: "Mapping.lookup (TT fresh_state) 0 = None"
    by (simp add: fresh_state_def)
  have "tt_store 0 1 5 5 10 None fresh_state = tt_maybe_evict ?s1"
    using tt_store_classification[where st = fresh_state and key = 0 and d = 1 and v = 5 and alpha_in = 5
        and beta_in = 10 and bm = None and s = fresh_state] n by simp
  moreover have "Mapping.size (TT ?s1) \<le> TT_MAX_SIZE"
    by (simp add: fresh_state_def size_one)
  then have "tt_maybe_evict ?s1 = ?s1"
    using tt_store_classification[where s = ?s1 and st = fresh_state and key = 0 and d = 1 and v = 5
        and alpha_in = 5 and beta_in = 10 and bm = None] by blast
  ultimately show "Mapping.lookup (TT (tt_store 0 1 5 5 10 None fresh_state)) 0 = Some ?e1"
    by simp
next
  let ?e2 = "\<lparr>entry_depth = 4, entry_value = 12, entry_flag = LOWER, entry_best_move = None\<rparr>"
  let ?s2 = "held_state\<lparr>TT := Mapping.update 0 ?e2 (TT held_state), TT_STORES := TT_STORES held_state + 1\<rparr>"
  have "tt_store 0 4 12 5 10 None held_state = tt_maybe_evict ?s2"
    using tt_store_classification[where st = held_state and key = 0 and d = 4 and v = 12 and alpha_in = 5
        and beta_in = 10 and bm = None and s = held_state] held_lookup held_entry_fields by simp
  moreover have "Mapping.size (TT ?s2) \<le> TT_MAX_SIZE"
    by (simp add: held_state_def fresh_state_def size_one_again)
  then have "tt_maybe_evict ?s2 = ?s2"
    using tt_store_classification[where s = ?s2 and st = held_state and key = 0 and d = 4 and v = 12
        and alpha_in = 5 and beta_in = 10 and bm = None] by blast
  ultimately show "Mapping.lookup (TT (tt_store 0 4 12 5 10 None held_state)) 0 = Some ?e2"
    by simp
next
  show "tt_store 0 2 5 5 10 None held_state = held_state"
    using tt_store_classification[where st = held_state and key = 0 and d = 2 and v = 5 and alpha_in = 5
        and beta_in = 10 and bm = None and s = held_state] held_lookup held_entry_fields by simp
qed

theorem tt_probe_rules_witness:
  "tt_probe 1 2 (- 5) 5 held_state = ((False, - 5, 5, None), held_state)
   \<and> tt_probe 0 4 (- 5) 5 held_state = ((False, - 5, 5, None), held_state)
   \<and> fst (tt_probe 0 2 (- 5) 5 held_state) = (True, - 5, 5, Some 7)
   \<and> snd (tt_probe 0 2 (- 5) 5 held_state) = held_state\<lparr>TT_HITS := TT_HITS held_state + 1\<rparr>"
proof (intro conjI)
  have none: "Mapping.lookup (TT held_state) 1 = None"
    by (simp add: held_state_def fresh_state_def)
  show "tt_probe 1 2 (- 5) 5 held_state = ((False, - 5, 5, None), held_state)"
    using tt_probe_rules[where st = held_state and key = 1 and d = 2 and alpha = "- 5" and beta = 5] none by simp
  show "tt_probe 0 4 (- 5) 5 held_state = ((False, - 5, 5, None), held_state)"
    using tt_probe_rules[where st = held_state and key = 0 and e = held_entry and d = 4 and alpha = "- 5" and beta = 5]
      held_lookup held_entry_fields by simp
  show "fst (tt_probe 0 2 (- 5) 5 held_state) = (True, - 5, 5, Some 7)"
    using tt_probe_rules[where st = held_state and key = 0 and e = held_entry and d = 2 and alpha = "- 5" and beta = 5]
      held_lookup held_entry_fields by simp
  show "snd (tt_probe 0 2 (- 5) 5 held_state) = held_state\<lparr>TT_HITS := TT_HITS held_state + 1\<rparr>"
    using tt_probe_rules[where st = held_state and key = 0 and e = held_entry and d = 2 and alpha = "- 5" and beta = 5]
      held_lookup held_entry_fields by simp
qed

text \<open>
  Claim C3. On a move without the en-passant flag \<open>apply_move_fixed\<close> returns what
  \<open>apply_move\<close> returns (with the move attached as \<open>last_move\<close>); on an en-passant move
  it also removes the passed-over pawn, which \<open>apply_move\<close> leaves on the board: for
  every generated en-passant move the two results differ on that square.
\<close>

theorem apply_move_fixed_vs_apply_move:
  "(\<not> is_ep mv \<longrightarrow>
      apply_move_fixed pos mv = map_sum id (\<lambda>q. q\<lparr>last_move := Some mv\<rparr>) (apply_move pos mv))
   \<and> (is_ep mv \<longrightarrow>
      apply_move_fixed pos mv
        = map_sum id (\<lambda>q. (if turn pos = W then q\<lparr>black := black q - {dst mv - 8}\<rparr>
                            else q\<lparr>white := white q - {dst mv + 8}\<rparr>)\<lparr>last_move := Some mv\<rparr>)
            (apply_move pos mv))
   \<and> (is_ep mv \<and> mv \<in> set (generate_moves pos) \<longrightarrow>
        (\<exists>q r. apply_move pos mv = Inr q \<and> apply_move_fixed pos mv = Inr r
           \<and> dst mv - fwd_of pos \<in> (if turn pos = W then black q else white q)
           \<and> dst mv - fwd_of pos \<notin> (if turn pos = W then black r else white r)))"
proof (intro conjI impI)
  assume "\<not> is_ep mv"
  then show "apply_move_fixed pos mv = map_sum id (\<lambda>q. q\<lparr>last_move := Some mv\<rparr>) (apply_move pos mv)"
    by (cases "apply_move pos mv") (simp_all add: apply_move_fixed_def)
next
  assume "is_ep mv"
  then show "apply_move_fixed pos mv
        = map_sum id (\<lambda>q. (if turn pos = W then q\<lparr>black := black q - {dst mv - 8}\<rparr>
                            else q\<lparr>white := white q - {dst mv + 8}\<rparr>)\<lparr>last_move := Some mv\<rparr>)
            (apply_move pos mv)"
    by (cases "apply_move pos mv") (simp_all add: apply_move_fixed_def Let_def)
next
  assume a: "is_ep mv \<and> mv \<in> set (generate_moves pos)"
  then obtain q where q: "apply_move pos mv = Inr q"
      "dst mv - fwd_of pos \<in> (if turn pos = W then black q else white q)"
    using apply_move_generated_ep[of mv pos] by blast
  with a show "\<exists>q r. apply_move pos mv = Inr q \<and> apply_move_fixed pos mv = Inr r
           \<and> dst mv - fwd_of pos \<in> (if turn pos = W then black q else white q)
           \<and> dst mv - fwd_of pos \<notin> (if turn pos = W then black r else white r)"
    by (auto simp: apply_move_fixed_def Let_def fwd_of_def)
qed

theorem apply_move_fixed_vs_apply_move_witness:
  "apply_move_fixed (Position {8} {48} W None) (Move 8 16 False False)
     = map_sum id (\<lambda>q. q\<lparr>last_move := Some (Move 8 16 False False)\<rparr>)
         (apply_move (Position {8} {48} W None) (Move 8 16 False False))
   \<and> (\<exists>q r. apply_move (Position {36} {35} W (Some 43)) (Move 36 43 True False) = Inr q
          \<and> apply_move_fixed (Position {36} {35} W (Some 43)) (Move 36 43 True False) = Inr r
          \<and> 35 \<in> black q \<and> 35 \<notin> black r)"
proof (intro conjI)
  have h1: "\<not> is_ep (Move 8 16 False False)" by (simp add: Move_def)
  show "apply_move_fixed (Position {8} {48} W None) (Move 8 16 False False)
     = map_sum id (\<lambda>q. q\<lparr>last_move := Some (Move 8 16 False False)\<rparr>)
         (apply_move (Position {8} {48} W None) (Move 8 16 False False))"
    using apply_move_fixed_vs_apply_move[of "Move 8 16 False False" "Position {8} {48} W None"] h1 by blast
  have h2: "is_ep (Move 36 43 True False)" by (simp add: Move_def)
  have h3: "dst (Move 36 43 True False) - fwd_of (Position {36} {35} W (Some 43)) = 35"
    "turn (Position {36} {35} W (Some 43)) = W"
    by (simp_all add: Move_def Position_def fwd_of_def)
  have "\<exists>q r. apply_move (Position {36} {35} W (Some 43)) (Move 36 43 True False) = Inr q
          \<and> apply_move_fixed (Position {36} {35} W (Some 43)) (Move 36 43 True False) = Inr r
          \<and> dst (Move 36 43 True False) - fwd_of (Position {36} {35} W (Some 43))
               \<in> (if turn (Position {36} {35} W (Some 43)) = W then black q else white q)
          \<and> dst (Move 36 43 True False) - fwd_of (Position {36} {35} W (Some 43))
               \<notin> (if turn (Position {36} {35} W (Some 43)) = W then black r else white r)"
    using apply_move_fixed_vs_apply_move[of "Move 36 43 True False" "Position {36} {35} W (Some 43)"] h2 generated_ep_example
    by blast
  then show "\<exists>q r. apply_move (Position {36} {35} W (Some 43)) (Move 36 43 True False) = Inr q
          \<and> apply_move_fixed (Position {36} {35} W (Some 43)) (Move 36 43 True False) = Inr r
          \<and> 35 \<in> black q \<and> 35 \<notin> black r"
    by (simp add: h3)
qed


lemma find_from_neg: "0 \<le> i \<Longrightarrow> (find_from c xs i < 0) = (c \<notin> set xs)"
  by (induction xs arbitrary: i) auto

lemma char_eq_iff_code: "(c = d) = ((of_char c :: nat) = of_char d)"
  by auto

lemma FILES_find_neg: "(FILES_find c < 0) = (\<not> is_file_char c)"
proof -
  have "(c \<in> set FILES) = is_file_char c"
    unfolding FILES_def is_file_char_def
    by (simp add: char_eq_iff_code[of c]) arith
  then show ?thesis
    by (simp add: FILES_find_def find_from_neg)
qed

lemma fr_to_square_Inl: "(fr_to_square fr = Inl e) = (e = ValueError \<and> \<not> valid_fr (py_strip fr))"
  by (auto simp: fr_to_square_def Let_def valid_fr_def is_rank_char_def FILES_find_neg)

lemma parse_square_Inl:
  "(parse_square tok = Inl e)
     = (e = ValueError \<and> \<not> valid_fr (map py_lower_char (py_strip tok)) \<and> \<not> valid_rf (map py_lower_char (py_strip tok)))"
  by (auto simp: parse_square_def Let_def valid_fr_def valid_rf_def)

lemma setup_tokens_loop_Inl:
  "(setup_tokens_loop ts w b = Inl e)
     = (e = ValueError \<and> (\<exists>t \<in> set ts. length (py_strip t) \<ge> 3 \<and> \<not> game_token_ok t))"
proof (induction ts arbitrary: w b)
  case Nil
  show ?case by simp
next
  case (Cons t ts)
  show ?case
  proof (cases "length (py_strip t) < 3")
    case True
    then show ?thesis using Cons.IH by (simp add: Let_def)
  next
    case False
    show ?thesis
    proof (cases "fr_to_square (tl (py_strip t))")
      case (Inl x)
      then have "x = ValueError" "\<not> valid_fr (py_strip (tl (py_strip t)))"
        using fr_to_square_Inl by auto
      with False Inl show ?thesis by (auto simp: Let_def game_token_ok_def)
    next
      case (Inr sq)
      then have v: "valid_fr (py_strip (tl (py_strip t)))"
        using fr_to_square_Inl[of "tl (py_strip t)" ValueError] by auto
      with False Inr show ?thesis using Cons.IH by (auto simp: Let_def game_token_ok_def)
    qed
  qed
qed

lemma parse_setup_loop_Inl:
  "(parse_setup_loop ts w b = Inl e) = (e = ValueError \<and> (\<exists>t \<in> set ts. \<not> notation_token_ok t))"
proof (induction ts arbitrary: w b)
  case Nil
  show ?case by simp
next
  case (Cons t ts)
  show ?case
  proof (cases "length (py_strip t) \<noteq> 3")
    case True
    then show ?thesis by (auto simp: Let_def notation_token_ok_def)
  next
    case False
    show ?thesis
    proof (cases "parse_square (take 2 (drop 1 (py_strip t)))")
      case (Inl x)
      then have "x = ValueError"
        "\<not> valid_fr (map py_lower_char (py_strip (take 2 (drop 1 (py_strip t)))))"
        "\<not> valid_rf (map py_lower_char (py_strip (take 2 (drop 1 (py_strip t)))))"
        using parse_square_Inl by auto
      with False Inl show ?thesis by (auto simp: Let_def notation_token_ok_def)
    next
      case (Inr sq)
      then have v: "valid_fr (map py_lower_char (py_strip (take 2 (drop 1 (py_strip t)))))
           \<or> valid_rf (map py_lower_char (py_strip (take 2 (drop 1 (py_strip t)))))"
        using parse_square_Inl[of "take 2 (drop 1 (py_strip t))" ValueError] by auto
      with False Inr show ?thesis using Cons.IH by (auto simp: Let_def notation_token_ok_def)
    qed
  qed
qed

text \<open>
  Claim C10, amended. \<open>from_setup_tokens\<close> fails with a parse error, producing no
  position, exactly when some token of at least three characters is not a colour
  \<open>W\<close> or \<open>B\<close> followed by a valid square; shorter tokens are skipped. \<open>parse_setup\<close>
  fails exactly when some token after the keyword is not of three characters, has a
  colour other than \<open>W\<close> or \<open>B\<close> in either case, or has an invalid square.
\<close>

theorem setup_parsing_rejects:
  "((\<exists>t \<in> set tokens. length (py_strip t) \<ge> 3 \<and> \<not> game_token_ok t) \<longrightarrow> from_setup_tokens tokens c = Inl ValueError)
   \<and> (\<not> (\<exists>t \<in> set tokens. length (py_strip t) \<ge> 3 \<and> \<not> game_token_ok t) \<longrightarrow> (\<exists>pos. from_setup_tokens tokens c = Inr pos))
   \<and> ((\<exists>t \<in> set toks. \<not> notation_token_ok t) \<longrightarrow> parse_setup (t0 # toks) = Inl ValueError)
   \<and> (\<not> (\<exists>t \<in> set toks. \<not> notation_token_ok t) \<and> map py_lower_char t0 = ''setup'' \<longrightarrow> (\<exists>pos. parse_setup (t0 # toks) = Inr pos))"
proof (intro conjI impI)
  assume "\<exists>t \<in> set tokens. length (py_strip t) \<ge> 3 \<and> \<not> game_token_ok t"
  then have "setup_tokens_loop tokens {} {} = Inl ValueError"
    using setup_tokens_loop_Inl by blast
  then show "from_setup_tokens tokens c = Inl ValueError"
    by (simp add: from_setup_tokens_def)
next
  assume "\<not> (\<exists>t \<in> set tokens. length (py_strip t) \<ge> 3 \<and> \<not> game_token_ok t)"
  then have "\<And>e. setup_tokens_loop tokens {} {} \<noteq> Inl e"
    using setup_tokens_loop_Inl by blast
  then show "\<exists>pos. from_setup_tokens tokens c = Inr pos"
    by (cases "setup_tokens_loop tokens {} {}") (auto simp: from_setup_tokens_def)
next
  assume "\<exists>t \<in> set toks. \<not> notation_token_ok t"
  then have "parse_setup_loop toks {} {} = Inl ValueError"
    using parse_setup_loop_Inl by blast
  then show "parse_setup (t0 # toks) = Inl ValueError"
    by (simp add: parse_setup_def)
next
  assume a: "\<not> (\<exists>t \<in> set toks. \<not> notation_token_ok t) \<and> map py_lower_char t0 = ''setup''"
  then have "\<And>e. parse_setup_loop toks {} {} \<noteq> Inl e"
    using parse_setup_loop_Inl by blast
  with a show "\<exists>pos. parse_setup (t0 # toks) = Inr pos"
    by (cases "parse_setup_loop toks {} {}") (auto simp: parse_setup_def)
qed

lemma from_setup_tokens_short_example: "from_setup_tokens [''Wa'', ''Bb7''] W = Inr (Position {} {49} W None)"
  by code_simp

lemma parse_setup_lowercase_example: "parse_setup [''Setup'', ''wa2''] = Inr (Position {8} {} W None)"
  by code_simp

lemma malformed_examples: "\<not> spec_well_formed_token ''Wa''" "\<not> spec_well_formed_token ''wa2''"
  by (simp_all add: spec_well_formed_token_def)

text \<open>
  Claim C10 as stated fails: \<open>from_setup_tokens\<close> skips the two-character token \<open>Wa\<close> and
  builds a position from the rest, and \<open>parse_setup\<close> accepts the colour \<open>w\<close>.
\<close>

theorem setup_parsing_counterexample:
  "\<not> spec_well_formed_token ''Wa''
   \<and> from_setup_tokens [''Wa'', ''Bb7''] W = Inr (Position {} {49} W None)
   \<and> \<not> spec_well_formed_token ''wa2''
   \<and> parse_setup [''Setup'', ''wa2''] = Inr (Position {8} {} W None)"
  using from_setup_tokens_short_example parse_setup_lowercase_example malformed_examples by blast

lemma bad_colour_example: "length (py_strip ''Xb7'') \<ge> 3 \<and> \<not> game_token_ok ''Xb7''"
  by code_simp

lemma long_token_example: "\<not> notation_token_ok ''Wa22''"
  by code_simp

lemma accepted_game_example: "\<not> (\<exists>t \<in> set [''Wa2'', ''x'']. length (py_strip t) \<ge> 3 \<and> \<not> game_token_ok t)"
  by code_simp

lemma accepted_notation_example: "\<not> (\<exists>t \<in> set [''wa2'', ''B7b'']. \<not> notation_token_ok t) \<and> map py_lower_char ''Setup'' = ''setup''"
  by code_simp

theorem setup_parsing_rejects_witness:
  "from_setup_tokens [''Wa2'', ''Xb7''] W = Inl ValueError
   \<and> (\<exists>pos. from_setup_tokens [''Wa2'', ''x''] W = Inr pos)
   \<and> parse_setup [''Setup'', ''Wa2'', ''Wa22''] = Inl ValueError
   \<and> (\<exists>pos. parse_setup [''Setup'', ''wa2'', ''B7b''] = Inr pos)"
proof (intro conjI)
  show "from_setup_tokens [''Wa2'', ''Xb7''] W = Inl ValueError"
    using setup_parsing_rejects[of "[''Wa2'', ''Xb7'']" W "[]" "[]"] bad_colour_example by simp
  show "\<exists>pos. from_setup_tokens [''Wa2'', ''x''] W = Inr pos"
    using setup_parsing_rejects[of "[''Wa2'', ''x'']" W "[]" "[]"] accepted_game_example by blast
  show "parse_setup [''Setup'', ''Wa2'', ''Wa22''] = Inl ValueError"
    using setup_parsing_rejects[of "[]" W "[''Wa2'', ''Wa22'']" "''Setup''"] long_token_example by simp
  show "\<exists>pos. parse_setup [''Setup'', ''wa2'', ''B7b''] = Inr pos"
    using setup_parsing_rejects[of "[]" W "[''wa2'', ''B7b'']" "''Setup''"] accepted_notation_example by blast
qed


subsection \<open>A digest computed: the hash of the last move \<open>8 -> 16\<close>\<close>

lemma lm_round_0:
  "blake2b_round [4044281013229856552, 2967907528696995884, 0, 0, 0, 0, 0, 0, 0, 0, 0, 0, 0, 0, 0, 0] 0
     [7640891576939301120, 13503953896175478587, 4354685564936845355, 11912009170470909681, 5840696475078001361, 11170449401992604703, 2270897969802886507, 6620516959819538809, 7640891576956012808, 13503953896175478587, 4354685564936845355, 11912009170470909681, 5840696475078001345, 11170449401992604703, 16175846103906665108, 6620516959819538809]
   = [16374472032724223659, 597478535369183424, 11388066237574694175, 4185939192712448109, 1026164827038281245, 10580581956486102538, 9962492443878824804, 16547130829661715893, 11169701794129561752, 11473831193056594359, 10187774001542152261, 4691788282368878030, 516673803380307130, 10658381910907224123, 226897631361945710, 9399499809205478002]"
  by (simp add: blake2b_round_def blake2b_G_def msg_word_def mix_def blake2b_sigma_def rotr64_def)

lemma lm_round_1:
  "blake2b_round [4044281013229856552, 2967907528696995884, 0, 0, 0, 0, 0, 0, 0, 0, 0, 0, 0, 0, 0, 0] (Suc 0)
     [16374472032724223659, 597478535369183424, 11388066237574694175, 4185939192712448109, 1026164827038281245, 10580581956486102538, 9962492443878824804, 16547130829661715893, 11169701794129561752, 11473831193056594359, 10187774001542152261, 4691788282368878030, 516673803380307130, 10658381910907224123, 226897631361945710, 9399499809205478002]
   = [6618154603450386536, 1461372125937371295, 3827698353482205861, 15996104241786699634, 15264550881306026011, 11680690319201861623, 7359834356957656003, 3808928562545253258, 16125911462470675785, 1619522044265329825, 13591998607370958813, 16291222665983852076, 8594495925522955137, 6784557617682652769, 5727981468024235597, 1497047997693648231]"
  by (simp add: blake2b_round_def blake2b_G_def msg_word_def mix_def blake2b_sigma_def rotr64_def)

lemma lm_round_2:
  "blake2b_round [4044281013229856552, 2967907528696995884, 0, 0, 0, 0, 0, 0, 0, 0, 0, 0, 0, 0, 0, 0] 2
     [6618154603450386536, 1461372125937371295, 3827698353482205861, 15996104241786699634, 15264550881306026011, 11680690319201861623, 7359834356957656003, 3808928562545253258, 16125911462470675785, 1619522044265329825, 13591998607370958813, 16291222665983852076, 8594495925522955137, 6784557617682652769, 5727981468024235597, 1497047997693648231]
   = [943885978015205833, 4901811410434077683, 5824616293007409033, 4670247011755009282, 7779665301736202785, 14426130182241061613, 6633662412552705543, 3748751843924716280, 2452817574152562603, 10128430026975376445, 10163655062702104187, 6740051715286861619, 13994570106605515594, 14521055899180009311, 2775531633867389406, 3052905495085863128]"
  by (simp add: blake2b_round_def blake2b_G_def msg_word_def mix_def blake2b_sigma_def rotr64_def)

lemma lm_round_3:
  "blake2b_round [4044281013229856552, 2967907528696995884, 0, 0, 0, 0, 0, 0, 0, 0, 0, 0, 0, 0, 0, 0] 3
     [943885978015205833, 4901811410434077683, 5824616293007409033, 4670247011755009282, 7779665301736202785, 14426130182241061613, 6633662412552705543, 3748751843924716280, 2452817574152562603, 10128430026975376445, 10163655062702104187, 6740051715286861619, 13994570106605515594, 14521055899180009311, 2775531633867389406, 3052905495085863128]
   = [10711019358549512070, 15861606417829731787, 16086235985110414138, 3363121041156368663, 13310295982984814334, 17199011210978092310, 11983465551701121346, 6992757718278677598, 8350044479994331692, 15645600844074773787, 3334932182540180377, 5586103129250326417, 14467200864527907064, 2920465833957631426, 3976201313018233259, 14803419425935215980]"
  by (simp add: blake2b_round_def blake2b_G_def msg_word_def mix_def blake2b_sigma_def rotr64_def)

lemma lm_round_4:
  "blake2b_round [4044281013229856552, 2967907528696995884, 0, 0, 0, 0, 0, 0, 0, 0, 0, 0, 0, 0, 0, 0] 4
     [10711019358549512070, 15861606417829731787, 16086235985110414138, 3363121041156368663, 13310295982984814334, 17199011210978092310, 11983465551701121346, 6992757718278677598, 8350044479994331692, 15645600844074773787, 3334932182540180377, 5586103129250326417, 14467200864527907064, 2920465833957631426, 3976201313018233259, 14803419425935215980]
   = [18106304056839326467, 9493908798099969795, 10422447643782656125, 14037193935878370232, 5850942090641381879, 968087805901128491, 4848733224921274339, 17633566907151249254, 797577280930326441, 2760417614945581986, 8039887799050632554, 17186175761443963952, 5771320014201735418, 14359544692279877032, 17858805221296713277, 5424371562683728165]"
  by (simp add: blake2b_round_def blake2b_G_def msg_word_def mix_def blake2b_sigma_def rotr64_def)

lemma lm_round_5:
  "blake2b_round [4044281013229856552, 2967907528696995884, 0, 0, 0, 0, 0, 0, 0, 0, 0, 0, 0, 0, 0, 0] 5
     [18106304056839326467, 9493908798099969795, 10422447643782656125, 14037193935878370232, 5850942090641381879, 968087805901128491, 4848733224921274339, 17633566907151249254, 797577280930326441, 2760417614945581986, 8039887799050632554, 17186175761443963952, 5771320014201735418, 14359544692279877032, 17858805221296713277, 5424371562683728165]
   = [9594949694550943922, 2192095204270566350, 3950579627926263715, 11094590142013802487, 11830471466481366724, 14933050593008218948, 7447742038157881664, 13183310021247266585, 9835146794521518687, 2483521675377082304, 4144947210744047008, 12689150714166791076, 5854075129401614958, 6655932464234516435, 17383265509922350157, 1000086483962973633]"
  by (simp add: blake2b_round_def blake2b_G_def msg_word_def mix_def blake2b_sigma_def rotr64_def)

lemma lm_round_6:
  "blake2b_round [4044281013229856552, 2967907528696995884, 0, 0, 0, 0, 0, 0, 0, 0, 0, 0, 0, 0, 0, 0] 6
     [9594949694550943922, 2192095204270566350, 3950579627926263715, 11094590142013802487, 11830471466481366724, 14933050593008218948, 7447742038157881664, 13183310021247266585, 9835146794521518687, 2483521675377082304, 4144947210744047008, 12689150714166791076, 5854075129401614958, 6655932464234516435, 17383265509922350157, 1000086483962973633]
   = [7951908325103485493, 7961928854798062839, 3870602556017254092, 1061419207741882537, 16715973535915431655, 9594723858542514281, 15552073570142071745, 12989155935326661470, 11434854873750117974, 11908167274995215727, 3480966857054043371, 14942358171145516026, 13738560192805653872, 9541662675162373300, 13023173529352846553, 7277151100473779400]"
  by (simp add: blake2b_round_def blake2b_G_def msg_word_def mix_def blake2b_sigma_def rotr64_def)

lemma lm_round_7:
  "blake2b_round [4044281013229856552, 2967907528696995884, 0, 0, 0, 0, 0, 0, 0, 0, 0, 0, 0, 0, 0, 0] 7
     [7951908325103485493, 7961928854798062839, 3870602556017254092, 1061419207741882537, 16715973535915431655, 9594723858542514281, 15552073570142071745, 12989155935326661470, 11434854873750117974, 11908167274995215727, 3480966857054043371, 14942358171145516026, 13738560192805653872, 9541662675162373300, 13023173529352846553, 7277151100473779400]
   = [16952994807579190235, 9249037538577920222, 15842611088404653719, 11682486613240347247, 17218729468202590593, 15942218348687485138, 7785090570626756016, 2362536783430708702, 4338092729698986511, 2740089895950407783, 5857754753354285148, 13521794590520184913, 2638186212918355424, 9270726111702481001, 31469228481410342, 16606300542191730903]"
  by (simp add: blake2b_round_def blake2b_G_def msg_word_def mix_def blake2b_sigma_def rotr64_def)

lemma lm_round_8:
  "blake2b_round [4044281013229856552, 2967907528696995884, 0, 0, 0, 0, 0, 0, 0, 0, 0, 0, 0, 0, 0, 0] 8
     [16952994807579190235, 9249037538577920222, 15842611088404653719, 11682486613240347247, 17218729468202590593, 15942218348687485138, 7785090570626756016, 2362536783430708702, 4338092729698986511, 2740089895950407783, 5857754753354285148, 13521794590520184913, 2638186212918355424, 9270726111702481001, 31469228481410342, 16606300542191730903]
   = [6035757473351817467, 12874139812734904112, 15338094693571411400, 16913297795696572932, 15070327831219347748, 2140391919910408120, 1402392224077012310, 8891429843739375944, 13286178358699858262, 14042740647878241370, 1459535567455184665, 12895846670189865304, 16053351908656477961, 12859767620681920057, 8748055358041199150, 4227622159380360973]"
  by (simp add: blake2b_round_def blake2b_G_def msg_word_def mix_def blake2b_sigma_def rotr64_def)

lemma lm_round_9:
  "blake2b_round [4044281013229856552, 2967907528696995884, 0, 0, 0, 0, 0, 0, 0, 0, 0, 0, 0, 0, 0, 0] 9
     [6035757473351817467, 12874139812734904112, 15338094693571411400, 16913297795696572932, 15070327831219347748, 2140391919910408120, 1402392224077012310, 8891429843739375944, 13286178358699858262, 14042740647878241370, 1459535567455184665, 12895846670189865304, 16053351908656477961, 12859767620681920057, 8748055358041199150, 4227622159380360973]
   = [10972675098037004921, 11829297294960378530, 10914690184954810525, 14100989031116711854, 12892705044562431767, 4454695787325217753, 10077426238968397537, 7170518348587465295, 5133592026700944777, 16277622107574102321, 1387549196011206288, 7645503835226686803, 17170491555248798178, 11182039690081492995, 2205300555343869806, 4416449618234377035]"
  by (simp add: blake2b_round_def blake2b_G_def msg_word_def mix_def blake2b_sigma_def rotr64_def)

lemma lm_round_10:
  "blake2b_round [4044281013229856552, 2967907528696995884, 0, 0, 0, 0, 0, 0, 0, 0, 0, 0, 0, 0, 0, 0] 10
     [10972675098037004921, 11829297294960378530, 10914690184954810525, 14100989031116711854, 12892705044562431767, 4454695787325217753, 10077426238968397537, 7170518348587465295, 5133592026700944777, 16277622107574102321, 1387549196011206288, 7645503835226686803, 17170491555248798178, 11182039690081492995, 2205300555343869806, 4416449618234377035]
   = [15818427109850926680, 15324065065875156918, 17025124421159967725, 18139379203815981713, 14574835326345298974, 12500602909248099616, 18165178618163097207, 15179527668696000951, 3079655053990898605, 12581491938436791984, 8386065785502666194, 10140343750789007812, 2128917182738344179, 11586762619747858693, 2152271899987412642, 12973544219729689363]"
  by (simp add: blake2b_round_def blake2b_G_def msg_word_def mix_def blake2b_sigma_def rotr64_def)

lemma lm_round_11:
  "blake2b_round [4044281013229856552, 2967907528696995884, 0, 0, 0, 0, 0, 0, 0, 0, 0, 0, 0, 0, 0, 0] 11
     [15818427109850926680, 15324065065875156918, 17025124421159967725, 18139379203815981713, 14574835326345298974, 12500602909248099616, 18165178618163097207, 15179527668696000951, 3079655053990898605, 12581491938436791984, 8386065785502666194, 10140343750789007812, 2128917182738344179, 11586762619747858693, 2152271899987412642, 12973544219729689363]
   = [14538912710919927746, 9452467418188080217, 1650972875100792690, 3271172977341172528, 16028546361043506581, 16976374867031225491, 6921168518418902285, 8583978358442742398, 17515529706945885804, 14122844628140017233, 6119524514603137858, 2888096409708820006, 13203465899067971756, 16531823272506281857, 8817564171173775032, 6529048845176917601]"
  by (simp add: blake2b_round_def blake2b_G_def msg_word_def mix_def blake2b_sigma_def rotr64_def)


lemmas lm_rounds = lm_round_0 lm_round_1 lm_round_2 lm_round_3 lm_round_4 lm_round_5
  lm_round_6 lm_round_7 lm_round_8 lm_round_9 lm_round_10 lm_round_11

lemma lm_block:
  "words_of_block 16 (map of_char ''('lm', 8, 16, 0)'' @ replicate (128 - length (map of_char ''('lm', 8, 16, 0)'' :: nat list)) 0)
     = [4044281013229856552, 2967907528696995884, 0, 0, 0, 0, 0, 0, 0, 0, 0, 0, 0, 0, 0, 0]"
  by (simp add: numeral_eq_Suc)

lemma lm_compress:
  "hd (blake2b_compress (blake2b_iv[0 := hd blake2b_iv XOR 0x01010008])
         [4044281013229856552, 2967907528696995884, 0, 0, 0, 0, 0, 0, 0, 0, 0, 0, 0, 0, 0, 0] 16 True)
     = 5827331383990241454"
  by (simp add: blake2b_compress_def blake2b_init_v_def blake2b_iv_def lm_rounds blake2b_finish_def)

lemma lm_digest: "blake2b_8 (map of_char ''('lm', 8, 16, 0)'') = 5827331383990241454"
proof -
  have "blake2b_blocks (blake2b_iv[0 := hd blake2b_iv XOR 0x01010008]) 0 (map of_char ''('lm', 8, 16, 0)'')
          = blake2b_compress (blake2b_iv[0 := hd blake2b_iv XOR 0x01010008])
              [4044281013229856552, 2967907528696995884, 0, 0, 0, 0, 0, 0, 0, 0, 0, 0, 0, 0, 0, 0] 16 True"
    by (subst blake2b_blocks.simps) (simp only: lm_block, simp)
  then show ?thesis
    by (simp only: blake2b_8_def lm_compress)
qed


lemma repr_lm_example: "repr_lm (Move 8 16 False False) = ''('lm', 8, 16, 0)''"
  by code_simp

lemma lm_hash: "stable_u64_from_obj (repr_lm (Move 8 16 False False)) = 5827331383990241454"
  by (simp only: stable_u64_from_obj_def repr_lm_example lm_digest)

lemma zobrist_key_split:
  "zobrist_key env pos = map_sum id (\<lambda>k. k XOR last_move_hash pos) (spec_zobrist_key env pos)"
  by (auto simp: zobrist_key_def spec_zobrist_key_def last_move_hash_def extract_ep_like_state_def
        extra_hash_def Let_def split: sum.splits option.splits)

lemma spec_zobrist_key_cong:
  "white p = white q \<Longrightarrow> black p = black q \<Longrightarrow> turn p = turn q \<Longrightarrow> ep_target p = ep_target q
     \<Longrightarrow> spec_zobrist_key env p = spec_zobrist_key env q"
  by (auto simp: spec_zobrist_key_def split: sum.splits)

lemma last_move_hash_cong:
  "ep_target p = ep_target q \<Longrightarrow> ep_target p \<noteq> None \<or> move_key (last_move p) = move_key (last_move q)
     \<Longrightarrow> last_move_hash p = last_move_hash q"
  by (auto simp: last_move_hash_def move_key_def repr_lm_def split: option.splits)

text \<open>
  Claim C6, amended. \<open>zobrist_key\<close> is the exclusive-or of the constants of the occupied
  squares, of the turn constant when white is to move, of a constant keyed by
  \<open>ep_target\<close> when it is present, and otherwise of a constant keyed by the last move
  the search attached to the position, if any. Two positions equal in \<open>white\<close>,
  \<open>black\<close>, \<open>turn\<close> and \<open>ep_target\<close> hash equal when \<open>ep_target\<close> is present or when
  their last moves agree in source, destination and en-passant flag.
\<close>

theorem zobrist_key_formula:
  "zobrist_key env pos = map_sum id (\<lambda>k. k XOR last_move_hash pos) (spec_zobrist_key env pos)
   \<and> (white p = white q \<and> black p = black q \<and> turn p = turn q \<and> ep_target p = ep_target q
        \<and> (ep_target p \<noteq> None \<or> move_key (last_move p) = move_key (last_move q))
      \<longrightarrow> zobrist_key env p = zobrist_key env q)"
  using zobrist_key_split spec_zobrist_key_cong last_move_hash_cong by metis

lemma Z_PIECE_at_in_range: "0 \<le> sq \<Longrightarrow> sq < 64 \<Longrightarrow> Z_PIECE_at env c sq = Inr (Z_PIECE env c (nat sq))"
  by (simp add: Z_PIECE_at_def)

lemma spec_key_example:
  "spec_zobrist_key env \<lparr>white = {16}, black = {48}, turn = B, ep_target = None, last_move = lm\<rparr>
     = Inr (Z_PIECE env 0 16 XOR Z_PIECE env 1 48)"
  by (simp add: spec_zobrist_key_def Z_PIECE_at_in_range)

text \<open>
  Claim C6 as stated fails. After the move \<open>8 -> 16\<close> from the position with a white
  pawn on 8 and a black pawn on 48, \<open>apply_move\<close> and \<open>apply_move_fixed\<close> return
  positions equal in \<open>white\<close>, \<open>black\<close>, \<open>turn\<close> and \<open>ep_target\<close> (which is absent). The
  second carries the last move, and for every table of constants its fingerprint
  differs from that of the first, and from the fingerprint specified.
\<close>

theorem zobrist_key_counterexample:
  "\<forall>env.
     apply_move (Position {8} {48} W None) (Move 8 16 False False)
       = Inr \<lparr>white = {16}, black = {48}, turn = B, ep_target = None, last_move = None\<rparr>
     \<and> apply_move_fixed (Position {8} {48} W None) (Move 8 16 False False)
       = Inr \<lparr>white = {16}, black = {48}, turn = B, ep_target = None, last_move = Some (Move 8 16 False False)\<rparr>
     \<and> zobrist_key env \<lparr>white = {16}, black = {48}, turn = B, ep_target = None, last_move = Some (Move 8 16 False False)\<rparr>
         \<noteq> zobrist_key env \<lparr>white = {16}, black = {48}, turn = B, ep_target = None, last_move = None\<rparr>
     \<and> zobrist_key env \<lparr>white = {16}, black = {48}, turn = B, ep_target = None, last_move = Some (Move 8 16 False False)\<rparr>
         \<noteq> spec_zobrist_key env \<lparr>white = {16}, black = {48}, turn = B, ep_target = None, last_move = Some (Move 8 16 False False)\<rparr>"
proof (intro allI conjI)
  fix env :: env
  let ?p = "\<lparr>white = {16}, black = {48}, turn = B, ep_target = None, last_move = None\<rparr>"
  let ?q = "\<lparr>white = {16}, black = {48}, turn = B, ep_target = None, last_move = Some (Move 8 16 False False)\<rparr>"
  show "apply_move (Position {8} {48} W None) (Move 8 16 False False) = Inr ?p"
    by (simp add: apply_move_def Position_def Move_def pawns_of_def opp_of_def fwd_of_def Let_def)
  then show "apply_move_fixed (Position {8} {48} W None) (Move 8 16 False False) = Inr ?q"
    by (simp add: apply_move_fixed_def Let_def) (simp add: Move_def)
  have hq: "last_move_hash ?q = 5827331383990241454"
    by (simp add: last_move_hash_def lm_hash)
  have hp: "last_move_hash ?p = 0"
    by (simp add: last_move_hash_def)
  have kq: "zobrist_key env ?q = Inr ((Z_PIECE env 0 16 XOR Z_PIECE env 1 48) XOR 5827331383990241454)"
    by (simp only: zobrist_key_split spec_key_example hq) simp
  have kp: "zobrist_key env ?p = Inr ((Z_PIECE env 0 16 XOR Z_PIECE env 1 48) XOR 0)"
    by (simp only: zobrist_key_split spec_key_example hp) simp
  have ne: "\<And>k :: 64 word. k XOR 5827331383990241454 \<noteq> k"
  proof
    fix k :: "64 word"
    assume "k XOR 5827331383990241454 = k"
    then have "k XOR (k XOR 5827331383990241454) = k XOR k" by simp
    then have "(5827331383990241454 :: 64 word) = 0"
      by (simp add: xor.assoc[symmetric])
    then show False by simp
  qed
  show "zobrist_key env ?q \<noteq> zobrist_key env ?p"
    using ne[of "Z_PIECE env 0 16 XOR Z_PIECE env 1 48"] by (simp add: kq kp)
  show "zobrist_key env ?q \<noteq> spec_zobrist_key env ?q"
    using ne[of "Z_PIECE env 0 16 XOR Z_PIECE env 1 48"] by (simp add: kq spec_key_example)
qed

theorem zobrist_key_formula_witness:
  "zobrist_key \<lparr>Z_PIECE = (\<lambda>c sq. 0), Z_TURN = 0, deadline_passed = (\<lambda>n. False)\<rparr> (Position {8} {48} W (Some 16))
     = zobrist_key \<lparr>Z_PIECE = (\<lambda>c sq. 0), Z_TURN = 0, deadline_passed = (\<lambda>n. False)\<rparr>
         ((Position {8} {48} W (Some 16))\<lparr>last_move := Some (Move 0 8 False False)\<rparr>)"
  using zobrist_key_formula[where p = "Position {8} {48} W (Some 16)"
      and q = "(Position {8} {48} W (Some 16))\<lparr>last_move := Some (Move 0 8 False False)\<rparr>"
      and pos = "Position {8} {48} W (Some 16)"
      and env = "\<lparr>Z_PIECE = (\<lambda>c sq. 0), Z_TURN = 0, deadline_passed = (\<lambda>n. False)\<rparr>", THEN conjunct2]
  by (simp add: Position_def)


subsection \<open>The search returns a legal move\<close>

lemma xor_pieces_in_range:
  "\<forall>sq \<in> set sqs. 0 \<le> sq \<and> sq < 64 \<Longrightarrow> \<exists>k'. xor_pieces env c sqs k = Inr k'"
  by (induction sqs arbitrary: k) (auto simp: Z_PIECE_at_def)

lemma zobrist_key_total:
  assumes "squares_ok pos"
  shows "\<exists>k. zobrist_key env pos = Inr k"
proof -
  have w: "\<forall>sq \<in> set (sorted_list_of_set (white pos)). 0 \<le> sq \<and> sq < 64"
    using assms set_sorted_list_of_set_subset[of "white pos"] by (auto simp: squares_ok_def)
  have b: "\<forall>sq \<in> set (sorted_list_of_set (black pos)). 0 \<le> sq \<and> sq < 64"
    using assms set_sorted_list_of_set_subset[of "black pos"] by (auto simp: squares_ok_def)
  obtain k1 where k1: "xor_pieces env 0 (sorted_list_of_set (white pos)) 0 = Inr k1"
    using xor_pieces_in_range[OF w] by blast
  obtain k2 where k2: "xor_pieces env (Suc 0) (sorted_list_of_set (black pos)) k1 = Inr k2"
    using xor_pieces_in_range[OF b] by blast
  show ?thesis by (simp add: zobrist_key_def k1 k2 Let_def)
qed

lemma apply_move_fixed_squares_ok:
  assumes "squares_ok pos" and "mv \<in> set (generate_moves pos)"
  shows "\<exists>child. apply_move_fixed pos mv = Inr child \<and> squares_ok child"
proof -
  from generate_moves_facts[OF assms(2)]
  have "src mv \<in> pawns_of pos" "0 \<le> dst mv" "dst mv < 64" by auto
  with assms(1) show ?thesis
    by (auto simp: apply_move_fixed_def apply_move_def Let_def squares_ok_def opp_of_def pawns_of_def
             split: if_splits)
qed

lemma set_capture_first: "set (capture_first pos ms) = set ms"
  by (auto simp: capture_first_def)

lemma set_move_to_front: "x \<in> set ms \<Longrightarrow> insert x (set (remove1 x ms)) = set ms"
proof (induction ms)
  case Nil
  then show ?case by simp
next
  case (Cons a ms)
  then show ?case by (cases "x = a") auto
qed

lemma set_tt_move_first: "set (tt_move_first e ms) = set ms"
  by (simp add: tt_move_first_def set_move_to_front split: option.splits)

lemma ordered_moves_subset:
  "set (tt_move_first e (capture_first pos (generate_moves pos))) \<subseteq> set (generate_moves pos)"
  by (simp add: set_tt_move_first set_capture_first)

lemma alphabeta_total_aux:
  "(squares_ok pos \<longrightarrow> (\<exists>r. alphabeta env pos d alpha beta st = Inr r))"
  "(squares_ok pos \<longrightarrow> set mvs \<subseteq> set (generate_moves pos) \<longrightarrow> (\<exists>r. ab_max env pos d alpha beta v bm mvs st = Inr r))"
  "(squares_ok pos \<longrightarrow> set mvs' \<subseteq> set (generate_moves pos) \<longrightarrow> (\<exists>r. ab_min env pos d alpha beta v bm mvs' st = Inr r))"
proof (induction env pos d alpha beta st and env pos d alpha beta v bm mvs st and env pos d alpha beta v bm mvs' st
       rule: alphabeta_ab_max_ab_min.induct)
  case (1 env pos d alpha beta st0)
  show ?case
  proof
    assume ok: "squares_ok pos"
    obtain up st1 where tu: "time_up env (st0\<lparr>NODES := NODES st0 + 1\<rparr>) = (up, st1)"
      by (cases "time_up env (st0\<lparr>NODES := NODES st0 + 1\<rparr>)") blast
    obtain key where key: "zobrist_key env pos = Inr key"
      using zobrist_key_total[OF ok] by blast
    obtain res st2 where tp0: "tt_probe key d alpha beta st1 = (res, st2)"
      by (cases "tt_probe key d alpha beta st1") blast
    obtain hit a1 b1 ev where res: "res = (hit, a1, b1, ev)"
      by (cases res) blast
    have tp: "tt_probe key d alpha beta st1 = ((hit, a1, b1, ev), st2)"
      using tp0 res by simp
    let ?ms = "tt_move_first (Mapping.lookup (TT st2) key) (capture_first pos (generate_moves pos))"
    show "\<exists>r. alphabeta env pos d alpha beta st0 = Inr r"
    proof (cases "up \<or> winner pos \<noteq> None \<or> d \<le> 0 \<or> ev \<noteq> None \<or> generate_moves pos = []")
      case True
      then show ?thesis
        by (subst alphabeta.simps) (auto simp: tu key tp split: option.splits)
    next
      case False
      show ?thesis
      proof (cases "turn pos = W")
        case True
        have "squares_ok pos \<longrightarrow> set ?ms \<subseteq> set (generate_moves pos) \<longrightarrow>
                (\<exists>r. ab_max env pos d a1 b1 (- (10 ^ 18)) None ?ms st2 = Inr r)"
          using "1.IH"(1)[of up st1 key "(hit, a1, b1, ev)" st2 hit "(a1, b1, ev)" a1 "(b1, ev)" b1 ev]
            tu key tp False True by simp
        then obtain r where "ab_max env pos d a1 b1 (- (10 ^ 18)) None ?ms st2 = Inr r"
          using ok ordered_moves_subset by blast
        with False True show ?thesis
          by (subst alphabeta.simps) (auto simp: tu key tp split: option.splits prod.splits)
      next
        case nW: False
        have "squares_ok pos \<longrightarrow> set ?ms \<subseteq> set (generate_moves pos) \<longrightarrow>
                (\<exists>r. ab_min env pos d a1 b1 (10 ^ 18) None ?ms st2 = Inr r)"
          using "1.IH"(2)[of up st1 key "(hit, a1, b1, ev)" st2 hit "(a1, b1, ev)" a1 "(b1, ev)" b1 ev]
            tu key tp False nW by simp
        then obtain r where "ab_min env pos d a1 b1 (10 ^ 18) None ?ms st2 = Inr r"
          using ok ordered_moves_subset by blast
        with False nW show ?thesis
          by (subst alphabeta.simps) (auto simp: tu key tp split: option.splits prod.splits)
      qed
    qed
  qed
next
  case (2 env pos d alpha beta v bm st)
  show ?case by simp
next
  case (3 env pos d alpha beta v bm mv mvs st)
  show ?case
  proof (intro impI)
    assume ok: "squares_ok pos" and sub: "set (mv # mvs) \<subseteq> set (generate_moves pos)"
    then obtain child where child: "apply_move_fixed pos mv = Inr child" "squares_ok child"
      using apply_move_fixed_squares_ok[of pos mv] by auto
    obtain up st1 where tu: "time_up env st = (up, st1)"
      by (cases "time_up env st") blast
    show "\<exists>r. ab_max env pos d alpha beta v bm (mv # mvs) st = Inr r"
    proof (cases up)
      case True
      then show ?thesis by (simp add: tu)
    next
      case False
      have "squares_ok child \<longrightarrow> (\<exists>r. alphabeta env child (d - 1) alpha beta st1 = Inr r)"
        using "3.IH"(1)[of up st1 child] tu False child by simp
      then obtain c st2 where ab: "alphabeta env child (d - 1) alpha beta st1 = Inr (c, st2)"
        using child by auto
      show ?thesis
      proof (cases "beta \<le> max alpha (if v < c then c else v)")
        case True
        then show ?thesis by (simp add: tu False child ab)
      next
        case open_window: False
        have "squares_ok pos \<longrightarrow> set mvs \<subseteq> set (generate_moves pos) \<longrightarrow>
                (\<exists>r. ab_max env pos d (max alpha (if v < c then c else v)) beta
                        (if v < c then c else v) (if v < c then Some mv else bm) mvs st2 = Inr r)"
          using "3.IH"(2)[of up st1 child "(c, st2)" c st2] tu False child ab open_window by simp
        then show ?thesis
          using ok sub open_window by (simp add: tu False child ab)
      qed
    qed
  qed
next
  case (4 env pos d alpha beta v bm st)
  show ?case by simp
next
  case (5 env pos d alpha beta v bm mv mvs st)
  show ?case
  proof (intro impI)
    assume ok: "squares_ok pos" and sub: "set (mv # mvs) \<subseteq> set (generate_moves pos)"
    then obtain child where child: "apply_move_fixed pos mv = Inr child" "squares_ok child"
      using apply_move_fixed_squares_ok[of pos mv] by auto
    obtain up st1 where tu: "time_up env st = (up, st1)"
      by (cases "time_up env st") blast
    show "\<exists>r. ab_min env pos d alpha beta v bm (mv # mvs) st = Inr r"
    proof (cases up)
      case True
      then show ?thesis by (simp add: tu)
    next
      case False
      have "squares_ok child \<longrightarrow> (\<exists>r. alphabeta env child (d - 1) alpha beta st1 = Inr r)"
        using "5.IH"(1)[of up st1 child] tu False child by simp
      then obtain c st2 where ab: "alphabeta env child (d - 1) alpha beta st1 = Inr (c, st2)"
        using child by auto
      show ?thesis
      proof (cases "min beta (if c < v then c else v) \<le> alpha")
        case True
        then show ?thesis by (simp add: tu False child ab)
      next
        case open_window: False
        have "squares_ok pos \<longrightarrow> set mvs \<subseteq> set (generate_moves pos) \<longrightarrow>
                (\<exists>r. ab_min env pos d alpha (min beta (if c < v then c else v))
                        (if c < v then c else v) (if c < v then Some mv else bm) mvs st2 = Inr r)"
          using "5.IH"(2)[of up st1 child "(c, st2)" c st2] tu False child ab open_window by simp
        then show ?thesis
          using ok sub open_window by (simp add: tu False child ab)
      qed
    qed
  qed
qed


lemma alphabeta_total:
  "squares_ok pos \<Longrightarrow> \<exists>r. alphabeta env pos d alpha beta st = Inr r"
  using alphabeta_total_aux(1) by blast

lemma root_loop_legal:
  "squares_ok pos \<Longrightarrow> set mvs \<subseteq> set (generate_moves pos) \<Longrightarrow> legal_or_none pos best_mv
     \<Longrightarrow> \<exists>val bm st'. root_loop env pos d maximizing alpha beta best_val best_mv mvs st = Inr ((val, bm), st')
            \<and> legal_or_none pos bm"
proof (induction mvs arbitrary: alpha beta best_val best_mv st)
  case Nil
  then show ?case by simp
next
  case (Cons mv mvs)
  obtain child where child: "apply_move_fixed pos mv = Inr child" "squares_ok child"
    using apply_move_fixed_squares_ok[of pos mv] Cons.prems by auto
  obtain up st1 where tu: "time_up env st = (up, st1)"
    by (cases "time_up env st") blast
  obtain c st2 where ab: "alphabeta env child (d - 1) alpha beta st1 = Inr (c, st2)"
    using alphabeta_total[OF child(2), of env "d - 1" alpha beta st1] by auto
  let ?better = "if maximizing then c > best_val else c < best_val"
  let ?bv = "if ?better then c else best_val"
  let ?bm = "if ?better then Some mv else best_mv"
  let ?a = "if maximizing then max alpha ?bv else alpha"
  let ?b = "if maximizing then beta else min beta ?bv"
  have legal: "legal_or_none pos ?bm"
    using Cons.prems by (simp add: legal_or_none_def)
  have sub: "set mvs \<subseteq> set (generate_moves pos)"
    using Cons.prems by simp
  show ?case
  proof (cases up)
    case True
    then show ?thesis using Cons.prems by (simp add: tu)
  next
    case False
    show ?thesis
    proof (cases "?b \<le> ?a")
      case True
      then show ?thesis using legal False by (simp add: tu child ab Let_def)
    next
      case open_window: False
      obtain val bm st' where
        "root_loop env pos d maximizing ?a ?b ?bv ?bm mvs st2 = Inr ((val, bm), st')" "legal_or_none pos bm"
        using Cons.IH[OF Cons.prems(1) sub legal] by blast
      then show ?thesis using False open_window by (simp add: tu child ab Let_def)
    qed
  qed
qed

lemma search_depth_legal:
  assumes "squares_ok pos"
  shows "\<exists>mv val st'. search_depth env pos d st = Inr ((mv, val), st') \<and> legal_or_none pos mv"
proof (cases "generate_moves pos = []")
  case True
  then show ?thesis by (simp add: search_depth_def legal_or_none_def)
next
  case False
  obtain key where key: "zobrist_key env pos = Inr key"
    using zobrist_key_total[OF assms] by blast
  let ?ms = "tt_move_first (Mapping.lookup (TT st) key) (capture_first pos (generate_moves pos))"
  have none: "legal_or_none pos None" by (simp add: legal_or_none_def)
  obtain val bm st' where
    "root_loop env pos d (turn pos = W) (- (10 ^ 18)) (10 ^ 18) (if turn pos = W then - (10 ^ 18) else 10 ^ 18) None ?ms st
       = Inr ((val, bm), st')" "legal_or_none pos bm"
    using root_loop_legal[OF assms ordered_moves_subset none] by blast
  then show ?thesis using False by (simp add: search_depth_def key Let_def)
qed

lemma search_depth_no_moves:
  "generate_moves pos = [] \<Longrightarrow> search_depth env pos d st = Inr ((None, evaluate pos), st)"
  by (simp add: search_depth_def)

lemma iterdeep_loop_legal:
  "squares_ok pos \<Longrightarrow> legal_or_none pos best
     \<Longrightarrow> \<exists>b st'. iterdeep_loop env pos max_depth d best st = Inr (b, st') \<and> legal_or_none pos b"
proof (induction env pos max_depth d best st rule: iterdeep_loop.induct)
  case (1 env pos max_depth d best st)
  obtain up st1 where tu: "time_up env st = (up, st1)"
    by (cases "time_up env st") blast
  obtain mv val st2 where sd: "search_depth env pos d st1 = Inr ((mv, val), st2)" "legal_or_none pos mv"
    using search_depth_legal[OF "1.prems"(1)] by blast
  have legal: "legal_or_none pos (case mv of Some m \<Rightarrow> Some m | None \<Rightarrow> best)"
    using sd(2) "1.prems"(2) by (cases mv) (simp_all add: legal_or_none_def)
  show ?case
  proof (cases "d \<le> max_depth \<and> \<not> up")
    case True
    have "\<exists>b st'. iterdeep_loop env pos max_depth (d + 1) (case mv of Some m \<Rightarrow> Some m | None \<Rightarrow> best) st2 = Inr (b, st')
            \<and> legal_or_none pos b"
      using "1.IH"[of up st1 "((mv, val), st2)" "(mv, val)" st2 mv val] True tu sd(1) "1.prems"(1) legal
      by simp
    then show ?thesis
      using True by (subst iterdeep_loop.simps) (simp add: tu sd(1))
  next
    case False
    then show ?thesis
      using "1.prems"(2) by (subst iterdeep_loop.simps) (auto simp: tu)
  qed
qed

lemma iterdeep_loop_no_moves:
  "generate_moves pos = [] \<Longrightarrow> \<exists>st'. iterdeep_loop env pos max_depth d best st = Inr (best, st')"
proof (induction env pos max_depth d best st rule: iterdeep_loop.induct)
  case (1 env pos max_depth d best st)
  obtain up st1 where tu: "time_up env st = (up, st1)"
    by (cases "time_up env st") blast
  have sd: "search_depth env pos d st1 = Inr ((None, evaluate pos), st1)"
    using search_depth_no_moves[OF "1.prems"] .
  show ?case
  proof (cases "d \<le> max_depth \<and> \<not> up")
    case True
    have "\<exists>st'. iterdeep_loop env pos max_depth (d + 1) best st1 = Inr (best, st')"
      using "1.IH"[of up st1 "((None, evaluate pos), st1)" "(None, evaluate pos)" st1 None "evaluate pos"]
        True tu sd "1.prems" by simp
    then show ?thesis
      using True by (subst iterdeep_loop.simps) (simp add: tu sd)
  next
    case False
    then show ?thesis
      by (subst iterdeep_loop.simps) (auto simp: tu)
  qed
qed

text \<open>
  Claim C1, amended. For every position whose squares lie in \<open>[0, 64)\<close> and that has a legal move,
  for every outcome of the deadline checks (so for every time budget and clock),
  every depth limit and every content of the transposition table,
  \<open>choose_move_iterdeep\<close> returns a move that \<open>generate_moves\<close> yields for the position;
  for every position without a legal move it fails with the no-legal-moves error.
\<close>

theorem choose_move_iterdeep_legal:
  "(squares_ok pos \<and> generate_moves pos \<noteq> [] \<longrightarrow>
      (\<exists>mv st'. choose_move_iterdeep env pos max_depth st = Inr (mv, st') \<and> mv \<in> set (generate_moves pos)))
   \<and> (generate_moves pos = [] \<longrightarrow> choose_move_iterdeep env pos max_depth st = Inl NoLegalMoves)"
proof (intro conjI impI)
  assume a: "squares_ok pos \<and> generate_moves pos \<noteq> []"
  have none: "legal_or_none pos None" by (simp add: legal_or_none_def)
  obtain b st' where l: "iterdeep_loop env pos max_depth 1 None (st\<lparr>NODES := 0\<rparr>) = Inr (b, st')" "legal_or_none pos b"
    using iterdeep_loop_legal[OF _ none] a by blast
  show "\<exists>mv st'. choose_move_iterdeep env pos max_depth st = Inr (mv, st') \<and> mv \<in> set (generate_moves pos)"
  proof (cases b)
    case None
    obtain m ms where "generate_moves pos = m # ms"
      using a by (cases "generate_moves pos") auto
    then show ?thesis
      using l None by (simp add: choose_move_iterdeep_def)
  next
    case (Some m)
    then show ?thesis
      using l by (simp add: choose_move_iterdeep_def legal_or_none_def)
  qed
next
  assume e: "generate_moves pos = []"
  obtain st' where "iterdeep_loop env pos max_depth 1 None (st\<lparr>NODES := 0\<rparr>) = Inr (None, st')"
    using iterdeep_loop_no_moves[OF e] by blast
  then show "choose_move_iterdeep env pos max_depth st = Inl NoLegalMoves"
    using e by (simp add: choose_move_iterdeep_def)
qed


lemma squares_ok_open: "squares_ok (Position {8} {48} W None)"
  by (simp add: squares_ok_def Position_def)

theorem choose_move_iterdeep_legal_witness:
  "(\<exists>mv st'. choose_move_iterdeep example_env (Position {8} {48} W None) 3 fresh_state = Inr (mv, st')
       \<and> mv \<in> set (generate_moves (Position {8} {48} W None)))
   \<and> choose_move_iterdeep example_env (Position {16} {24} W None) 3 fresh_state = Inl NoLegalMoves"
proof (intro conjI)
  show "\<exists>mv st'. choose_move_iterdeep example_env (Position {8} {48} W None) 3 fresh_state = Inr (mv, st')
       \<and> mv \<in> set (generate_moves (Position {8} {48} W None))"
    using choose_move_iterdeep_legal[of "Position {8} {48} W None" example_env 3 fresh_state]
      squares_ok_open generate_moves_open by blast
  show "choose_move_iterdeep example_env (Position {16} {24} W None) 3 fresh_state = Inl NoLegalMoves"
    using choose_move_iterdeep_legal[of "Position {16} {24} W None" example_env 3 fresh_state]
      generate_moves_blocked by blast
qed

lemma generate_moves_off_board:
  "generate_moves (Position {8, 64} {48} W None) = [Move 8 16 False False, Move 8 24 False True]"
  by (simp add: generate_moves_def pawn_moves_def forward_moves_def capture_moves_def ep_moves_def
        Position_def Move_def pawns_of_def opp_of_def fwd_of_def occupied_def cap_deltas_of_def ep_deltas_of_def
        start_rank_of_def rank_of_def file_of_def Let_def)

lemma zobrist_key_off_board: "zobrist_key env (Position {8, 64} {48} W None) = Inl IndexError"
  by (simp add: zobrist_key_def Position_def Z_PIECE_at_def)

text \<open>
  Claim C1 as stated fails on a position with a square outside \<open>[0, 64)\<close>: with white
  pawns on 8 and 64 the position has two legal moves, and the search ends in
  \<open>IndexError\<close>, raised by the lookup \<open>Z_PIECE[0][64]\<close>.
\<close>

theorem choose_move_iterdeep_counterexample:
  "generate_moves (Position {8, 64} {48} W None) = [Move 8 16 False False, Move 8 24 False True]
   \<and> choose_move_iterdeep example_env (Position {8, 64} {48} W None) 3 fresh_state = Inl IndexError"
proof -
  have sd: "\<And>st. search_depth example_env (Position {8, 64} {48} W None) 1 st = Inl IndexError"
    by (simp add: search_depth_def generate_moves_off_board zobrist_key_off_board Let_def)
  have dp: "\<not> deadline_passed example_env 0"
    by (simp add: example_env_def)
  have "iterdeep_loop example_env (Position {8, 64} {48} W None) 3 1 None (fresh_state\<lparr>NODES := 0\<rparr>) = Inl IndexError"
    by (subst iterdeep_loop.simps) (simp add: time_up_def fresh_state_def dp sd)
  then show ?thesis
    by (simp add: choose_move_iterdeep_def generate_moves_off_board)
qed

text \<open>
  Claim C9 as stated fails: with one white pawn on square 16 (rank 3) and no black pawn
  \<open>evaluate\<close> returns 109, while the rank distance advanced gives 103 counted from the
  starting rank and 106 counted from the own back rank.
\<close>

theorem evaluate_counterexample:
  "evaluate (Position {16} {} B None) = 109
   \<and> spec_evaluate 2 (Position {16} {} B None) = 103
   \<and> spec_evaluate 1 (Position {16} {} B None) = 106"
  by (simp add: evaluate_def spec_evaluate_def spec_progress_def Position_def rank_of_def)

text \<open>
  Claim C9, amended. For every position, \<open>evaluate\<close> is 100 times the difference of the
  pawn counts plus 3 times the difference of the progress sums, where white's progress
  sums the rank number of each white pawn and black's progress sums 9 minus the rank
  number of each black pawn.
\<close>

theorem evaluate_formula:
  "evaluate pos =
     100 * (int (card (white pos)) - int (card (black pos)))
     + 3 * ((\<Sum>sq \<in> white pos. rank_of sq) - (\<Sum>sq \<in> black pos. 9 - rank_of sq))"
  by (simp add: evaluate_def rank_of_def add.commute)

end
